theory Spec2Isabelle
  imports Complex_Main "HOL-Library.Sublist" "HOL-Library.Char_ord" "HOL-Library.List_Lexorder"
begin

section \<open>Python values used by generate\_tiles\_multiprocess.py\<close>

text \<open>
  The script computes with Python \<open>int\<close> (unbounded, modelled as \<^typ>\<open>int\<close>) and Python
  \<open>float\<close>. A float is modelled as a \<^typ>\<open>real\<close>: the model covers finite floats and
  leaves rounding error, overflow, infinities and NaN out. Every place where the
  interpreter raises on such values (a list index out of range, a float division by
  zero, \<open>math.log\<close> of a non-positive number) is a branch that returns \<open>Inl\<close>.
\<close>

datatype error = IndexError | ZeroDivisionError | ValueError | FileNotFoundError | SystemExit int

definition ebind :: "error + 'a \<Rightarrow> ('a \<Rightarrow> error + 'b) \<Rightarrow> error + 'b" where
  "ebind m f = (case m of Inl err \<Rightarrow> Inl err | Inr v \<Rightarrow> f v)"

text \<open>\<open>xs[i]\<close> on a Python list: a negative index counts from the end.\<close>

definition py_getitem :: "'a list \<Rightarrow> int \<Rightarrow> error + 'a" where
  "py_getitem xs i =
     (if 0 \<le> i \<and> i < int (length xs) then Inr (xs ! nat i)
      else if i < 0 \<and> - int (length xs) \<le> i then Inr (xs ! nat (int (length xs) + i))
      else Inl IndexError)"

text \<open>\<open>a / b\<close> on floats.\<close>

definition py_truediv :: "real \<Rightarrow> real \<Rightarrow> error + real" where
  "py_truediv a b = (if b = 0 then Inl ZeroDivisionError else Inr (a / b))"

text \<open>\<open>math.log(x)\<close>: a math domain error unless \<open>x\<close> is positive.\<close>

definition math_log :: "real \<Rightarrow> error + real" where
  "math_log x = (if x \<le> 0 then Inl ValueError else Inr (ln x))"

text \<open>\<open>round(x)\<close> of a float: the nearest integer, a tie going to the even one.\<close>

definition py_round :: "real \<Rightarrow> int" where
  "py_round x =
     (let f = \<lfloor>x\<rfloor>; d = x - of_int f
      in if d < 1 / 2 then f else if 1 / 2 < d then f + 1 else if even f then f else f + 1)"

text \<open>\<open>int(x)\<close> of a float: truncation toward zero.\<close>

definition py_int :: "real \<Rightarrow> int" where
  "py_int x = (if 0 \<le> x then \<lfloor>x\<rfloor> else \<lceil>x\<rceil>)"

definition DEG_TO_RAD :: real where
  "DEG_TO_RAD = pi / 180"

definition RAD_TO_DEG :: real where
  "RAD_TO_DEG = 180 / pi"

definition MERC_MAX_LATITUDE :: real where
  "MERC_MAX_LATITUDE = 85.0511287798065923778"

section \<open>GoogleProjection\<close>

record GoogleProjection =
  Bc :: "real list"
  Cc :: "real list"
  zc :: "(real \<times> real) list"
  Ac :: "int list"

text \<open>
  The constructor's loop \<open>for _ in range(0, levels)\<close>: the first argument counts the
  iterations left, \<open>c\<close> is the loop's running tile width.
\<close>

fun GoogleProjection_loop :: "nat \<Rightarrow> int \<Rightarrow> GoogleProjection \<Rightarrow> GoogleProjection" where
  "GoogleProjection_loop 0 c p = p"
| "GoogleProjection_loop (Suc n) c p =
     (let e = real_of_int c / 2
      in GoogleProjection_loop n (c * 2)
           \<lparr>Bc = Bc p @ [real_of_int c / 360],
            Cc = Cc p @ [real_of_int c / (2 * pi)],
            zc = zc p @ [(e, e)],
            Ac = Ac p @ [c]\<rparr>)"

definition GoogleProjection_init :: "int \<Rightarrow> int \<Rightarrow> GoogleProjection" where
  "GoogleProjection_init levels tile_size =
     GoogleProjection_loop (nat levels) tile_size \<lparr>Bc = [], Cc = [], zc = [], Ac = []\<rparr>"

definition from_ll_to_pixel ::
  "GoogleProjection \<Rightarrow> real \<times> real \<Rightarrow> int \<Rightarrow> error + (int \<times> int)" where
  "from_ll_to_pixel self ll zoom =
     ebind (py_getitem (zc self) zoom) (\<lambda>d.
     ebind (py_getitem (Bc self) zoom) (\<lambda>bc.
       let e = py_round (fst d + fst ll * bc);
           f = min (max (sin (DEG_TO_RAD * snd ll)) (- 0.9999)) 0.9999
       in ebind (py_truediv (1 + f) (1 - f)) (\<lambda>q.
          ebind (math_log q) (\<lambda>l.
          ebind (py_getitem (Cc self) zoom) (\<lambda>cc.
            let g = py_round (snd d + 0.5 * l * - cc)
            in Inr (e, g))))))"

definition from_pixel_to_ll ::
  "GoogleProjection \<Rightarrow> int \<times> int \<Rightarrow> int \<Rightarrow> error + (real \<times> real)" where
  "from_pixel_to_ll self px zoom =
     ebind (py_getitem (zc self) zoom) (\<lambda>e.
     ebind (py_getitem (Bc self) zoom) (\<lambda>bc.
     ebind (py_truediv (real_of_int (fst px) - fst e) bc) (\<lambda>f.
     ebind (py_getitem (Cc self) zoom) (\<lambda>cc.
     ebind (py_truediv (real_of_int (snd px) - snd e) (- cc)) (\<lambda>g.
       let h = RAD_TO_DEG * (2 * arctan (exp g) - 0.5 * pi)
       in Inr (f, h))))))"

section \<open>Strings and paths\<close>

text \<open>\<open>"%s" % n\<close> and \<open>str(n)\<close> of an \<open>int\<close>: its decimal digits, with a sign when negative.\<close>

definition digit_char :: "nat \<Rightarrow> char" where
  "digit_char d = ''0123456789'' ! d"

fun py_str_nat :: "nat \<Rightarrow> string" where
  "py_str_nat n =
     (if n < 10 then [digit_char n] else py_str_nat (n div 10) @ [digit_char (n mod 10)])"

declare py_str_nat.simps [simp del]

definition py_str_int :: "int \<Rightarrow> string" where
  "py_str_int i = (if i < 0 then CHR ''-'' # py_str_nat (nat (- i)) else py_str_nat (nat i))"

text \<open>
  \<open>os.path.join(a, *p)\<close> of \<open>posixpath\<close>: a component that starts with the separator
  replaces what came before it; otherwise it is appended, after a separator unless the
  path so far is empty or ends with one.
\<close>

definition os_path_join_step :: "string \<Rightarrow> string \<Rightarrow> string" where
  "os_path_join_step path b =
     (if prefix ''/'' b then b
      else if path = [] \<or> last path = CHR ''/'' then path @ b
      else path @ ''/'' @ b)"

definition os_path_join :: "string \<Rightarrow> string list \<Rightarrow> string" where
  "os_path_join a p = foldl os_path_join_step a p"

text \<open>
  \<open>os.path.dirname(p)\<close>: everything up to the last separator, without trailing separators
  unless it consists of separators only.
\<close>

definition os_path_dirname :: "string \<Rightarrow> string" where
  "os_path_dirname p =
     (let head = rev (dropWhile (\<lambda>c. c \<noteq> CHR ''/'') (rev p))
      in if head \<noteq> [] \<and> (\<exists>c \<in> set head. c \<noteq> CHR ''/'')
         then rev (dropWhile (\<lambda>c. c = CHR ''/'') (rev head))
         else head)"

text \<open>\<open>os.path.basename(p)\<close>: what follows the last separator.\<close>

definition os_path_basename :: "string \<Rightarrow> string" where
  "os_path_basename p = rev (takeWhile (\<lambda>c. c \<noteq> CHR ''/'') (rev p))"

text \<open>
  \<open>os.path.splitext(p)[0]\<close>: \<open>p\<close> up to its last dot, when that dot comes after the last
  separator and some character between the two is not a dot; all of \<open>p\<close> otherwise.
\<close>

definition os_path_splitext_root :: "string \<Rightarrow> string" where
  "os_path_splitext_root p =
     (let ext = rev (takeWhile (\<lambda>c. c \<noteq> CHR ''.'') (rev p));
          root = take (length p - length ext - 1) p;
          name = rev (takeWhile (\<lambda>c. c \<noteq> CHR ''/'') (rev root))
      in if CHR ''.'' \<in> set p \<and> CHR ''/'' \<notin> set ext \<and> (\<exists>c \<in> set name. c \<noteq> CHR ''.'')
         then root else p)"

section \<open>The file system\<close>

text \<open>
  The file system maps a path to what is stored there: a regular file with its bytes, or
  a directory. The functions of \<open>os.path\<close>, \<open>os\<close> and \<open>shutil\<close> the script calls read or
  update this map.
\<close>

datatype node = File string | Dir

type_synonym filesystem = "string \<Rightarrow> node option"

definition os_path_exists :: "filesystem \<Rightarrow> string \<Rightarrow> bool" where
  "os_path_exists fs p = (fs p \<noteq> None)"

definition os_path_isdir :: "filesystem \<Rightarrow> string \<Rightarrow> bool" where
  "os_path_isdir fs p = (fs p = Some Dir)"

definition os_path_isfile :: "filesystem \<Rightarrow> string \<Rightarrow> bool" where
  "os_path_isfile fs p = (case fs p of Some (File _) \<Rightarrow> True | _ \<Rightarrow> False)"

text \<open>\<open>os.stat(p)[6]\<close>, the size in bytes; the size of a directory is not modelled.\<close>

definition os_stat_size :: "filesystem \<Rightarrow> string \<Rightarrow> error + int" where
  "os_stat_size fs p =
     (case fs p of None \<Rightarrow> Inl FileNotFoundError
      | Some (File c) \<Rightarrow> Inr (int (length c))
      | Some Dir \<Rightarrow> Inr 0)"

text \<open>\<open>shutil.rmtree(d)\<close>: the directory and everything below it is removed.\<close>

definition shutil_rmtree :: "filesystem \<Rightarrow> string \<Rightarrow> filesystem" where
  "shutil_rmtree fs d = (\<lambda>p. if p = d \<or> prefix (d @ ''/'') p then None else fs p)"

section \<open>RenderThread\<close>

text \<open>
  \<open>mapnik.Box2d(minx, miny, maxx, maxy)\<close> is a tuple of four floats. The rendering engine is
  an external collaborator: \<open>tr_forward\<close> is \<open>self.tr.forward\<close>, \<open>buffer_size\<close> is
  \<open>self.m.buffer_size\<close>, and \<open>m_render\<close> gives the bytes that \<open>mapnik.render\<close> followed by
  \<open>im.save\<close> writes for the map zoomed to a box. A \<open>render_call\<close> records one such
  rendering: the box given to \<open>zoom_to_box\<close>, the buffer and image size in force, and the
  path and format given to \<open>im.save\<close>.
\<close>

type_synonym box = "real \<times> real \<times> real \<times> real"

record render_call =
  rc_bbox :: box
  rc_buffer :: int
  rc_size :: int
  rc_uri :: string
  rc_format :: string

record RenderThread =
  tr_forward :: "box \<Rightarrow> box"
  buffer_size :: int
  m_render :: "render_call \<Rightarrow> string"
  tile_proj :: GoogleProjection
  tile_size :: int
  tile_fmt :: string

definition RenderThread_init ::
  "(box \<Rightarrow> box) \<Rightarrow> int \<Rightarrow> (render_call \<Rightarrow> string) \<Rightarrow> int \<Rightarrow> int \<Rightarrow> string \<Rightarrow> RenderThread" where
  "RenderThread_init tr buf rnd max_zoom tile_size' tile_fmt' =
     \<lparr>tr_forward = tr, buffer_size = buf, m_render = rnd,
      tile_proj = GoogleProjection_init (max_zoom + 1) tile_size',
      tile_size = tile_size', tile_fmt = tile_fmt'\<rparr>"

text \<open>
  \<open>render_tile\<close> returns the worker (its map's buffer size may have been raised) and the
  rendering it asked for; the caller stores the rendered bytes at \<open>tile_uri\<close>.
\<close>

definition render_tile ::
  "RenderThread \<Rightarrow> string \<Rightarrow> int \<Rightarrow> int \<Rightarrow> int \<Rightarrow> error + (RenderThread \<times> render_call)" where
  "render_tile self tile_uri x y z =
     (let p0 = (x * tile_size self, (y + 1) * tile_size self);
          p1 = ((x + 1) * tile_size self, y * tile_size self)
      in ebind (from_pixel_to_ll (tile_proj self) p0 z) (\<lambda>l0.
         ebind (from_pixel_to_ll (tile_proj self) p1 z) (\<lambda>l1.
           let bbox = (fst l0, snd l0, fst l1, snd l1);
               bbox = tr_forward self bbox;
               self = (if buffer_size self < 128 then self\<lparr>buffer_size := 128\<rparr> else self);
               fmt = (if tile_fmt self = ''webp'' then ''webp:lossless=1:quality=100:image_hint=3''
                      else if tile_fmt self = ''jpg'' then ''jpeg100''
                      else tile_fmt self @ '':z=9:s=rle'')
           in Inr (self, \<lparr>rc_bbox = bbox, rc_buffer = buffer_size self, rc_size = tile_size self,
                          rc_uri = tile_uri, rc_format = fmt\<rparr>))))"

text \<open>
  A request is the tuple \<open>(name, tile_uri, x, y, z)\<close>; an item of the queue is a request or
  \<open>None\<close>, the shutdown sentinel. What a worker does is recorded as a trace of events:
  a rendering saved to disk, the arguments \<open>(name, z, x, y, exists, empty)\<close> of the
  \<open>logger.debug\<close> call that ends an iteration, and \<open>task_done\<close>.
\<close>

type_synonym request = "string \<times> string \<times> int \<times> int \<times> int"

type_synonym log_record = "string \<times> int \<times> int \<times> int \<times> string \<times> string"

datatype event = Rendered render_call | Logged log_record | TaskDone

text \<open>
  One iteration of \<open>loop\<close> for a request; \<open>debug\<close> is \<open>logger.isEnabledFor(logging.DEBUG)\<close>.
  The \<open>logger.debug\<close> call of the map's scale denominator is not recorded.
\<close>

definition loop_body ::
  "bool \<Rightarrow> RenderThread \<Rightarrow> filesystem \<Rightarrow> request \<Rightarrow>
     error + (RenderThread \<times> filesystem \<times> event list)" where
  "loop_body debug self fs r =
     (case r of (name, tile_uri, x, y, z) \<Rightarrow>
        ebind (if os_path_isfile fs tile_uri then Inr (''exists'', self, fs, [])
               else ebind (render_tile self tile_uri x y z) (\<lambda>(self', call).
                      Inr ('''', self', fs(tile_uri \<mapsto> File (m_render self' call)), [Rendered call])))
          (\<lambda>(exists, self', fs', evs).
        ebind (if debug
               then ebind (os_stat_size fs' tile_uri) (\<lambda>data.
                      Inr (if data = 103 \<or> data = 126 \<or> data = 222 then ''empty'' else ''''))
               else Inr '''')
          (\<lambda>empty.
        Inr (self', fs', evs @ [Logged (name, z, x, y, exists, empty), TaskDone]))))"

text \<open>
  \<open>loop\<close> over the items this worker pops, in order. It stops at the sentinel, ends with
  the exception of a failed iteration, and is left blocked in \<open>q.get()\<close> when the items
  run out before a sentinel.
\<close>

datatype outcome = Stopped | Blocked | Crashed error

fun loop ::
  "bool \<Rightarrow> RenderThread \<Rightarrow> filesystem \<Rightarrow> request option list \<Rightarrow>
     outcome \<times> RenderThread \<times> filesystem \<times> event list" where
  "loop debug self fs [] = (Blocked, self, fs, [])"
| "loop debug self fs (None # q) = (Stopped, self, fs, [TaskDone])"
| "loop debug self fs (Some r # q) =
     (case loop_body debug self fs r of
        Inl err \<Rightarrow> (Crashed err, self, fs, [])
      | Inr (self', fs', evs) \<Rightarrow>
          (case loop debug self' fs' q of (out, self'', fs'', evs') \<Rightarrow> (out, self'', fs'', evs @ evs')))"

section \<open>render\_tiles\<close>

text \<open>\<open>range(a, b)\<close> and \<open>2 ** z\<close> (a float when \<open>z\<close> is negative).\<close>

definition py_range :: "int \<Rightarrow> int \<Rightarrow> int list" where
  "py_range a b = [a..b - 1]"

definition py_pow2 :: "int \<Rightarrow> real" where
  "py_pow2 z = (if 0 \<le> z then 2 ^ nat z else 1 / 2 ^ nat (- z))"

text \<open>\<open>int(px / tile_sizef)\<close> with \<open>tile_sizef = float(tile_size)\<close>.\<close>

definition tile_index :: "int \<Rightarrow> int \<Rightarrow> error + int" where
  "tile_index px tile_size' =
     ebind (py_truediv (real_of_int px) (real_of_int tile_size')) (\<lambda>q. Inr (py_int q))"

text \<open>
  The body of the loop over \<open>y\<close> for one \<open>x\<close>, and of the loop over \<open>x\<close>: a coordinate that
  fails validation is skipped by \<open>continue\<close>, any other is put into the queue.
\<close>

definition render_tiles_y ::
  "string \<Rightarrow> string \<Rightarrow> string \<Rightarrow> int \<Rightarrow> int \<Rightarrow> int \<Rightarrow> request list" where
  "render_tiles_y name tile_dir tile_ext z x y =
     (if y < 0 \<or> py_pow2 z \<le> real_of_int y then []
      else [(name,
             os_path_join tile_dir [py_str_int z, py_str_int x, py_str_int y @ ''.'' @ tile_ext],
             x, y, z)])"

definition render_tiles_x ::
  "string \<Rightarrow> string \<Rightarrow> string \<Rightarrow> int \<Rightarrow> int list \<Rightarrow> int \<Rightarrow> request list" where
  "render_tiles_x name tile_dir tile_ext z ys x =
     (if x < 0 \<or> py_pow2 z \<le> real_of_int x then []
      else concat (map (render_tiles_y name tile_dir tile_ext z x) ys))"

text \<open>
  One iteration of the loop over \<open>z\<close>: the requests put into the queue, in order. The
  bounds of the \<open>y\<close> range do not depend on \<open>x\<close>; the source evaluates them anew for every
  valid \<open>x\<close>, and they raise exactly when the bounds of the \<open>x\<close> range do (a zero tile size).
  The directories that the loop creates with \<open>os.mkdir\<close> on the way are not part of this
  function.
\<close>

definition render_tiles_zoom ::
  "GoogleProjection \<Rightarrow> real \<times> real \<Rightarrow> real \<times> real \<Rightarrow> string \<Rightarrow> int \<Rightarrow> string \<Rightarrow> string \<Rightarrow> int \<Rightarrow>
     error + request list" where
  "render_tiles_zoom gprj ll0 ll1 name tile_size' tile_dir tile_ext z =
     ebind (from_ll_to_pixel gprj ll0 z) (\<lambda>px0.
     ebind (from_ll_to_pixel gprj ll1 z) (\<lambda>px1.
     ebind (tile_index (fst px0) tile_size') (\<lambda>x0.
     ebind (tile_index (fst px1) tile_size') (\<lambda>x1.
     ebind (tile_index (snd px0) tile_size') (\<lambda>y0.
     ebind (tile_index (snd px1) tile_size') (\<lambda>y1.
       Inr (concat (map (render_tiles_x name tile_dir tile_ext z (py_range y0 (y1 + 1)))
                        (py_range x0 (x1 + 1))))))))))"

text \<open>
  The loop over the zoom levels: the requests put so far, and the exception that ended
  the loop early, if any.
\<close>

fun render_tiles_zooms ::
  "GoogleProjection \<Rightarrow> real \<times> real \<Rightarrow> real \<times> real \<Rightarrow> string \<Rightarrow> int \<Rightarrow> string \<Rightarrow> string \<Rightarrow> int list \<Rightarrow>
     request list \<times> error option" where
  "render_tiles_zooms gprj ll0 ll1 name tile_size' tile_dir tile_ext [] = ([], None)"
| "render_tiles_zooms gprj ll0 ll1 name tile_size' tile_dir tile_ext (z # zs) =
     (case render_tiles_zoom gprj ll0 ll1 name tile_size' tile_dir tile_ext z of
        Inl err \<Rightarrow> ([], Some err)
      | Inr reqs \<Rightarrow>
          (case render_tiles_zooms gprj ll0 ll1 name tile_size' tile_dir tile_ext zs of
             (rest, err) \<Rightarrow> (reqs @ rest, err)))"

definition render_tiles_puts ::
  "box \<Rightarrow> int \<Rightarrow> int \<Rightarrow> string \<Rightarrow> int \<Rightarrow> string \<Rightarrow> string \<Rightarrow> request list \<times> error option" where
  "render_tiles_puts bbox min_zoom max_zoom name tile_size' tile_dir tile_ext =
     (case bbox of (b0, b1, b2, b3) \<Rightarrow>
        let gprj = GoogleProjection_init (max_zoom + 1) tile_size';
            ll0 = (b0, b3);
            ll1 = (b2, b1)
        in render_tiles_zooms gprj ll0 ll1 name tile_size' tile_dir tile_ext
             (py_range min_zoom (max_zoom + 1)))"

text \<open>
  \<open>render_tiles\<close>: the workers it starts, everything it puts into the queue (the requests,
  then one sentinel per worker) and the exception that ended the enumeration, if any.
  How these puts interleave with the workers, and when \<open>queue.join()\<close> and
  \<open>Thread.join()\<close> return, is the subject of the queue protocol below.
\<close>

definition render_tiles ::
  "(box \<Rightarrow> box) \<Rightarrow> int \<Rightarrow> (render_call \<Rightarrow> string) \<Rightarrow> box \<Rightarrow> int \<Rightarrow> int \<Rightarrow> int \<Rightarrow> string \<Rightarrow> int \<Rightarrow>
     string \<Rightarrow> string \<Rightarrow> string \<Rightarrow> RenderThread list \<times> request option list \<times> error option" where
  "render_tiles tr buf rnd bbox min_zoom max_zoom threads name tile_size' tile_fmt' tile_dir tile_ext =
     (let renderers = map (\<lambda>i. RenderThread_init tr buf rnd max_zoom tile_size' tile_fmt')
                          (py_range 0 threads)
      in case render_tiles_puts bbox min_zoom max_zoom name tile_size' tile_dir tile_ext of
           (puts, Some err) \<Rightarrow> (renderers, map Some puts, Some err)
         | (puts, None) \<Rightarrow>
             (renderers, map Some puts @ map (\<lambda>_. None) (py_range 0 threads), None))"

section \<open>The command-line program\<close>

record args =
  input_arg :: string
  output_arg :: string
  min_arg :: int
  max_arg :: int
  bbox_arg :: "box option"
  threads_arg :: int
  name_arg :: string
  size_arg :: int
  format_arg :: string

definition tiles_ext_of :: "string \<Rightarrow> string" where
  "tiles_ext_of fmt = (if prefix ''png'' fmt then ''png'' else fmt)"

definition tiles_dir_of :: "string \<Rightarrow> string" where
  "tiles_dir_of inp = os_path_join (os_path_dirname inp) [''tiles'']"

text \<open>The bounding box after the default or the clamping has been applied.\<close>

definition main_bbox :: "box option \<Rightarrow> box" where
  "main_bbox b =
     (case b of
        None \<Rightarrow> (- 180, - MERC_MAX_LATITUDE, 180, MERC_MAX_LATITUDE)
      | Some (b0, b1, b2, b3) \<Rightarrow>
          (min (max (- 180) b0) 180,
           min (max (- MERC_MAX_LATITUDE) b1) MERC_MAX_LATITUDE,
           min (max (- 180) b2) 180,
           min (max (- MERC_MAX_LATITUDE) b3) MERC_MAX_LATITUDE))"

text \<open>
  The program from its first statement to the return of \<open>render_tiles\<close>: the file system as
  it is when \<open>render_tiles\<close> is called, and what that call does.
\<close>

definition main_render ::
  "(box \<Rightarrow> box) \<Rightarrow> int \<Rightarrow> (render_call \<Rightarrow> string) \<Rightarrow> args \<Rightarrow> filesystem \<Rightarrow>
     filesystem \<times> RenderThread list \<times> request option list \<times> error option" where
  "main_render tr buf rnd a fs =
     (let tiles_dir = tiles_dir_of (input_arg a);
          tiles_ext = tiles_ext_of (format_arg a);
          fs = (if os_path_exists fs tiles_dir \<and> os_path_isdir fs tiles_dir
                then shutil_rmtree fs tiles_dir else fs);
          bbox = main_bbox (bbox_arg a)
      in (fs, render_tiles tr buf rnd bbox (min_arg a) (max_arg a) (threads_arg a) (name_arg a)
                (size_arg a) (format_arg a) tiles_dir tiles_ext))"

text \<open>
  The metadata dictionary, in the order of its keys in the source; \<open>bounds\<close> is the
  formatted string of the four bounding box entries.
\<close>

definition metadata :: "string \<Rightarrow> string \<Rightarrow> string \<Rightarrow> int \<Rightarrow> int \<Rightarrow> (string \<times> string) list" where
  "metadata mbtiles_path tiles_ext bounds mn mx =
     [(''name'', os_path_splitext_root (os_path_basename mbtiles_path)),
      (''format'', tiles_ext),
      (''bounds'', bounds),
      (''minzoom'', py_str_int mn),
      (''maxzoom'', py_str_int mx),
      (''attribution'', ''''),
      (''description'', ''''),
      (''type'', ''''),
      (''version'', '''')]"

text \<open>\<open>json.dump(d, f, sort_keys=True, ...)\<close> writes the members of \<open>d\<close> in the order of their keys.\<close>

definition json_dump_members :: "(string \<times> string) list \<Rightarrow> (string \<times> string) list" where
  "json_dump_members d = sort_key fst d"

text \<open>
  The program after \<open>render_tiles\<close>: nothing is written without an output path, the program
  exits with status 1 when the archive exists, and otherwise \<open>metadata.json\<close> is written
  with the members returned here.
\<close>

definition main_metadata ::
  "args \<Rightarrow> string \<Rightarrow> filesystem \<Rightarrow> error + (string \<times> (string \<times> string) list) option" where
  "main_metadata a bounds fs =
     (let tiles_dir = tiles_dir_of (input_arg a);
          tiles_ext = tiles_ext_of (format_arg a);
          mbtiles_path = output_arg a
      in if mbtiles_path = [] then Inr None
         else if os_path_isfile fs mbtiles_path then Inl (SystemExit 1)
         else let md = metadata mbtiles_path tiles_ext bounds (min_arg a) (max_arg a);
                  md = filter (\<lambda>(k, v). v \<noteq> '''') md
              in Inr (Some (os_path_join tiles_dir [''metadata.json''], json_dump_members md)))"

section \<open>The queue protocol of render\_tiles and its workers\<close>













section \<open>The tables built by the constructor\<close>

lemma GoogleProjection_loop_lengths:
  "length (Bc (GoogleProjection_loop n c p)) = length (Bc p) + n \<and>
   length (Cc (GoogleProjection_loop n c p)) = length (Cc p) + n \<and>
   length (zc (GoogleProjection_loop n c p)) = length (zc p) + n \<and>
   length (Ac (GoogleProjection_loop n c p)) = length (Ac p) + n"
  by (induction n arbitrary: c p) (simp_all add: Let_def)

lemma GoogleProjection_init_lengths:
  "length (Bc (GoogleProjection_init levels ts)) = nat levels"
  "length (Cc (GoogleProjection_init levels ts)) = nat levels"
  "length (zc (GoogleProjection_init levels ts)) = nat levels"
  "length (Ac (GoogleProjection_init levels ts)) = nat levels"
  using GoogleProjection_loop_lengths [of "nat levels" ts "\<lparr>Bc = [], Cc = [], zc = [], Ac = []\<rparr>"]
  by (simp_all add: GoogleProjection_init_def)

lemma py_getitem_out:
  "int (length xs) \<le> i \<or> i < - int (length xs) \<Longrightarrow> py_getitem xs i = Inl IndexError"
  by (auto simp: py_getitem_def Let_def)

lemma py_getitem_neg:
  "- int (length xs) \<le> i \<Longrightarrow> i < 0 \<Longrightarrow> py_getitem xs i = py_getitem xs (i + int (length xs))"
  by (auto simp: py_getitem_def Let_def add.commute)




section \<open>Zoom levels outside the table\<close>

text \<open>
  Claim C5, as the code has it. The tables of \<open>GoogleProjection(levels, tile_size)\<close> hold
  \<open>max(0, levels)\<close> entries. Both conversions raise \<open>IndexError\<close> for a zoom that is at or above
  that number or below its negative. A negative zoom down to the negated number of entries
  is not refused: the list index counts from the end of the table, and both conversions
  compute with the entry at \<open>zoom + levels\<close>.
\<close>

theorem zoom_outside_table:
  "(max 0 levels \<le> zoom \<or> zoom < - max 0 levels \<longrightarrow>
      from_ll_to_pixel (GoogleProjection_init levels tile_size') ll zoom = Inl IndexError \<and>
      from_pixel_to_ll (GoogleProjection_init levels tile_size') px zoom = Inl IndexError) \<and>
   (- max 0 levels \<le> zoom \<and> zoom < 0 \<longrightarrow>
      from_ll_to_pixel (GoogleProjection_init levels tile_size') ll zoom =
        from_ll_to_pixel (GoogleProjection_init levels tile_size') ll (zoom + levels) \<and>
      from_pixel_to_ll (GoogleProjection_init levels tile_size') px zoom =
        from_pixel_to_ll (GoogleProjection_init levels tile_size') px (zoom + levels))"
proof -
  let ?p = "GoogleProjection_init levels tile_size'"
  have n: "int (length (zc ?p)) = max 0 levels" "int (length (Bc ?p)) = max 0 levels"
    "int (length (Cc ?p)) = max 0 levels"
    by (simp_all add: GoogleProjection_init_lengths)
  have out: "from_ll_to_pixel ?p ll zoom = Inl IndexError \<and> from_pixel_to_ll ?p px zoom = Inl IndexError"
    if "max 0 levels \<le> zoom \<or> zoom < - max 0 levels"
  proof -
    have "py_getitem (zc ?p) zoom = Inl IndexError"
      using that n by (intro py_getitem_out) simp
    then show ?thesis
      by (simp add: from_ll_to_pixel_def from_pixel_to_ll_def ebind_def)
  qed
  have neg: "from_ll_to_pixel ?p ll zoom = from_ll_to_pixel ?p ll (zoom + levels) \<and>
      from_pixel_to_ll ?p px zoom = from_pixel_to_ll ?p px (zoom + levels)"
    if "- max 0 levels \<le> zoom \<and> zoom < 0"
  proof -
    from that have l: "max 0 levels = levels" by linarith
    have "py_getitem (zc ?p) zoom = py_getitem (zc ?p) (zoom + levels)"
      "py_getitem (Bc ?p) zoom = py_getitem (Bc ?p) (zoom + levels)"
      "py_getitem (Cc ?p) zoom = py_getitem (Cc ?p) (zoom + levels)"
      using that n l py_getitem_neg [of "zc ?p" zoom] py_getitem_neg [of "Bc ?p" zoom]
        py_getitem_neg [of "Cc ?p" zoom] by simp_all
    then show ?thesis
      by (simp add: from_ll_to_pixel_def from_pixel_to_ll_def)
  qed
  from out neg show ?thesis by blast
qed

text \<open>
  The theorem at a table of three levels: zoom 3 raises in both directions, and zoom \<open>-1\<close>
  is read as zoom 2.
\<close>

theorem zoom_outside_table_witness:
  "from_ll_to_pixel (GoogleProjection_init 3 256) (10, 20) 3 = Inl IndexError \<and>
   from_pixel_to_ll (GoogleProjection_init 3 256) (5, 7) 3 = Inl IndexError \<and>
   from_ll_to_pixel (GoogleProjection_init 3 256) (10, 20) (- 1) =
     from_ll_to_pixel (GoogleProjection_init 3 256) (10, 20) 2 \<and>
   from_pixel_to_ll (GoogleProjection_init 3 256) (5, 7) (- 1) =
     from_pixel_to_ll (GoogleProjection_init 3 256) (5, 7) 2"
  using zoom_outside_table [of 3 3 256 "(10, 20)" "(5, 7)"]
    zoom_outside_table [of 3 "- 1" 256 "(10, 20)" "(5, 7)"]
  by simp

text \<open>
  The claim as the specification states it fails: \<open>-1\<close> is not an index in \<open>[0, 1)\<close>, and
  both conversions return a value for it.
\<close>

theorem zoom_outside_table_counterexample:
  "\<not> (0 \<le> (- 1 :: int) \<and> (- 1 :: int) < 1) \<and>
   from_ll_to_pixel (GoogleProjection_init 1 256) (0, 0) (- 1) = Inr (128, 128) \<and>
   from_pixel_to_ll (GoogleProjection_init 1 256) (128, 128) (- 1) = Inr (0, 0)"
  by (simp add: from_ll_to_pixel_def from_pixel_to_ll_def GoogleProjection_init_def ebind_def
      py_getitem_def py_truediv_def math_log_def py_round_def DEG_TO_RAD_def RAD_TO_DEG_def
      Let_def arctan_one)

section \<open>from\_ll\_to\_pixel is total on the table\<close>





section \<open>The tiles that render\_tiles enumerates\<close>

lemma set_py_range: "set (py_range a b) = {v. a \<le> v \<and> v < b}"
  by (auto simp: py_range_def)

lemma py_pow2_nonneg: "0 \<le> z \<Longrightarrow> (real_of_int v < py_pow2 z) = (v < 2 ^ nat z)"
proof -
  assume "0 \<le> z"
  then have "py_pow2 z = real_of_int (2 ^ nat z)" by (simp add: py_pow2_def)
  then show ?thesis by (simp only: of_int_less_iff)
qed

lemma render_tiles_y_filter:
  "concat (map (render_tiles_y name tile_dir tile_ext z x) ys) =
     map (\<lambda>y. (name, os_path_join tile_dir [py_str_int z, py_str_int x, py_str_int y @ ''.'' @ tile_ext], x, y, z))
       (filter (\<lambda>y. 0 \<le> y \<and> real_of_int y < py_pow2 z) ys)"
  by (induction ys) (auto simp: render_tiles_y_def)

lemma render_tiles_x_filter:
  "concat (map (render_tiles_x name tile_dir tile_ext z ys) xs) =
     map (\<lambda>(x, y). (name, os_path_join tile_dir [py_str_int z, py_str_int x, py_str_int y @ ''.'' @ tile_ext], x, y, z))
       (filter (\<lambda>(x, y). 0 \<le> x \<and> real_of_int x < py_pow2 z \<and> 0 \<le> y \<and> real_of_int y < py_pow2 z)
          (List.product xs ys))"
proof (induction xs)
  case Nil
  then show ?case by simp
next
  case (Cons x xs)
  show ?case
  proof (cases "0 \<le> x \<and> real_of_int x < py_pow2 z")
    case True
    then have "render_tiles_x name tile_dir tile_ext z ys x =
        concat (map (render_tiles_y name tile_dir tile_ext z x) ys)"
      by (auto simp: render_tiles_x_def)
    then show ?thesis
      using True Cons.IH by (simp add: render_tiles_y_filter filter_map comp_def)
  next
    case False
    then have "render_tiles_x name tile_dir tile_ext z ys x = []"
      by (auto simp: render_tiles_x_def)
    moreover have "filter (\<lambda>(x, y). 0 \<le> x \<and> real_of_int x < py_pow2 z \<and> 0 \<le> y \<and> real_of_int y < py_pow2 z)
        (map (Pair x) ys) = []"
      using False by (auto simp: filter_empty_conv)
    ultimately show ?thesis
      using Cons.IH by simp
  qed
qed

lemma tile_index_eq:
  "ts \<noteq> 0 \<Longrightarrow> tile_index px ts = Inr (py_int (real_of_int px / real_of_int ts))"
  by (simp add: tile_index_def py_truediv_def ebind_def)

lemma render_tiles_zoom_filter:
  assumes "ts \<noteq> 0"
    and "from_ll_to_pixel gprj ll0 z = Inr px0" and "from_ll_to_pixel gprj ll1 z = Inr px1"
  shows "render_tiles_zoom gprj ll0 ll1 name ts tile_dir tile_ext z =
     Inr (map (\<lambda>(x, y). (name, os_path_join tile_dir [py_str_int z, py_str_int x, py_str_int y @ ''.'' @ tile_ext], x, y, z))
       (filter (\<lambda>(x, y). 0 \<le> x \<and> real_of_int x < py_pow2 z \<and> 0 \<le> y \<and> real_of_int y < py_pow2 z)
          (List.product
             (py_range (py_int (real_of_int (fst px0) / real_of_int ts))
                       (py_int (real_of_int (fst px1) / real_of_int ts) + 1))
             (py_range (py_int (real_of_int (snd px0) / real_of_int ts))
                       (py_int (real_of_int (snd px1) / real_of_int ts) + 1)))))"
  using assms
  by (simp add: render_tiles_zoom_def ebind_def tile_index_eq render_tiles_x_filter)

lemma render_tiles_zoom_members:
  assumes "render_tiles_zoom gprj ll0 ll1 name ts tile_dir tile_ext z = Inr reqs"
    and "(n, uri, x, y, z') \<in> set reqs"
  shows "z' = z \<and> 0 \<le> x \<and> real_of_int x < py_pow2 z \<and> 0 \<le> y \<and> real_of_int y < py_pow2 z"
  using assms
  by (auto simp: render_tiles_zoom_def ebind_def render_tiles_x_filter split: sum.splits)

lemma render_tiles_zooms_members:
  assumes "(n, uri, x, y, z) \<in> set (fst (render_tiles_zooms gprj ll0 ll1 name ts tile_dir tile_ext zs))"
  shows "z \<in> set zs \<and> 0 \<le> x \<and> real_of_int x < py_pow2 z \<and> 0 \<le> y \<and> real_of_int y < py_pow2 z"
  using assms
proof (induction zs)
  case Nil
  then show ?case by simp
next
  case (Cons a zs)
  show ?case
  proof (cases "render_tiles_zoom gprj ll0 ll1 name ts tile_dir tile_ext a")
    case (Inl err)
    with Cons.prems show ?thesis by simp
  next
    case (Inr reqs)
    with Cons.prems have "(n, uri, x, y, z) \<in> set reqs \<or>
        (n, uri, x, y, z) \<in> set (fst (render_tiles_zooms gprj ll0 ll1 name ts tile_dir tile_ext zs))"
      by (auto split: prod.splits)
    then show ?thesis
    proof
      assume "(n, uri, x, y, z) \<in> set reqs"
      from render_tiles_zoom_members [OF Inr this] show ?thesis by simp
    next
      assume "(n, uri, x, y, z) \<in> set (fst (render_tiles_zooms gprj ll0 ll1 name ts tile_dir tile_ext zs))"
      from Cons.IH [OF this] show ?thesis by simp
    qed
  qed
qed

text \<open>
  Claim C1. Every request that \<open>render_tiles\<close> puts into the queue has its zoom in
  \<open>[min_zoom, max_zoom]\<close> and its \<open>x\<close> and \<open>y\<close> in \<open>[0, 2 ** z)\<close>. A coordinate of the rectangle
  of tile indices derived from the two pixel corners that lies outside that range is
  dropped without an error: where the two corners convert and the tile size is not zero,
  the iteration for a zoom level returns normally, and its requests are the rectangle's
  coordinates filtered by the range check, in order.
\<close>

theorem render_tiles_in_range:
  "(\<forall>(n, uri, x, y, z) \<in> set (fst (render_tiles_puts bbox min_zoom max_zoom name ts tile_dir tile_ext)).
      min_zoom \<le> z \<and> z \<le> max_zoom \<and>
      0 \<le> x \<and> real_of_int x < py_pow2 z \<and> 0 \<le> y \<and> real_of_int y < py_pow2 z \<and>
      (0 \<le> z \<longrightarrow> x < 2 ^ nat z \<and> y < 2 ^ nat z)) \<and>
   (ts \<noteq> 0 \<and> from_ll_to_pixel gprj ll0 z = Inr px0 \<and> from_ll_to_pixel gprj ll1 z = Inr px1 \<longrightarrow>
      render_tiles_zoom gprj ll0 ll1 name ts tile_dir tile_ext z =
        Inr (map (\<lambda>(x, y). (name, os_path_join tile_dir
                     [py_str_int z, py_str_int x, py_str_int y @ ''.'' @ tile_ext], x, y, z))
              (filter (\<lambda>(x, y). 0 \<le> x \<and> real_of_int x < py_pow2 z \<and> 0 \<le> y \<and> real_of_int y < py_pow2 z)
                 (List.product
                    (py_range (py_int (real_of_int (fst px0) / real_of_int ts))
                              (py_int (real_of_int (fst px1) / real_of_int ts) + 1))
                    (py_range (py_int (real_of_int (snd px0) / real_of_int ts))
                              (py_int (real_of_int (snd px1) / real_of_int ts) + 1))))))"
proof (intro conjI ballI impI)
  fix r
  assume r: "r \<in> set (fst (render_tiles_puts bbox min_zoom max_zoom name ts tile_dir tile_ext))"
  obtain n uri x y z' where req: "r = (n, uri, x, y, z')" by (cases r) auto
  obtain b0 b1 b2 b3 where bb: "bbox = (b0, b1, b2, b3)" by (cases bbox) auto
  from r req bb have "(n, uri, x, y, z') \<in> set (fst (render_tiles_zooms
      (GoogleProjection_init (max_zoom + 1) ts) (b0, b3) (b2, b1) name ts tile_dir tile_ext
      (py_range min_zoom (max_zoom + 1))))"
    by (simp add: render_tiles_puts_def Let_def)
  from render_tiles_zooms_members [OF this]
  have m: "z' \<in> set (py_range min_zoom (max_zoom + 1))" "0 \<le> x" "real_of_int x < py_pow2 z'"
    "0 \<le> y" "real_of_int y < py_pow2 z'"
    by simp_all
  from m(1) have zr: "min_zoom \<le> z'" "z' \<le> max_zoom" by (simp_all add: set_py_range)
  have "0 \<le> z' \<longrightarrow> x < 2 ^ nat z' \<and> y < 2 ^ nat z'"
    using m(3,5) py_pow2_nonneg by blast
  with m zr show "case r of (n, uri, x, y, z) \<Rightarrow>
      min_zoom \<le> z \<and> z \<le> max_zoom \<and>
      0 \<le> x \<and> real_of_int x < py_pow2 z \<and> 0 \<le> y \<and> real_of_int y < py_pow2 z \<and>
      (0 \<le> z \<longrightarrow> x < 2 ^ nat z \<and> y < 2 ^ nat z)"
    by (simp add: req)
next
  assume "ts \<noteq> 0 \<and> from_ll_to_pixel gprj ll0 z = Inr px0 \<and> from_ll_to_pixel gprj ll1 z = Inr px1"
  then show "render_tiles_zoom gprj ll0 ll1 name ts tile_dir tile_ext z =
        Inr (map (\<lambda>(x, y). (name, os_path_join tile_dir
                     [py_str_int z, py_str_int x, py_str_int y @ ''.'' @ tile_ext], x, y, z))
              (filter (\<lambda>(x, y). 0 \<le> x \<and> real_of_int x < py_pow2 z \<and> 0 \<le> y \<and> real_of_int y < py_pow2 z)
                 (List.product
                    (py_range (py_int (real_of_int (fst px0) / real_of_int ts))
                              (py_int (real_of_int (fst px1) / real_of_int ts) + 1))
                    (py_range (py_int (real_of_int (snd px0) / real_of_int ts))
                              (py_int (real_of_int (snd px1) / real_of_int ts) + 1)))))"
    using render_tiles_zoom_filter by blast
qed

lemma GoogleProjection_init_2_256:
  "GoogleProjection_init 2 256 =
     \<lparr>Bc = [256 / 360, 512 / 360], Cc = [256 / (2 * pi), 512 / (2 * pi)],
      zc = [(128, 128), (256, 256)], Ac = [256, 512]\<rparr>"
  by (simp add: GoogleProjection_init_def eval_nat_numeral Let_def)

lemma py_str_int_digits:
  "py_str_int 0 = ''0''" "py_str_int 1 = ''1''"
  by (simp_all add: py_str_int_def py_str_nat.simps digit_char_def)

lemma equator_pixels:
  "from_ll_to_pixel (GoogleProjection_init 2 256) (- 180, 0) 0 = Inr (0, 128)"
  "from_ll_to_pixel (GoogleProjection_init 2 256) (180, 0) 0 = Inr (256, 128)"
  "from_ll_to_pixel (GoogleProjection_init 2 256) (- 180, 0) 1 = Inr (0, 256)"
  "from_ll_to_pixel (GoogleProjection_init 2 256) (180, 0) 1 = Inr (512, 256)"
  by (simp_all add: GoogleProjection_init_2_256 from_ll_to_pixel_def ebind_def py_getitem_def
      py_truediv_def math_log_def py_round_def DEG_TO_RAD_def Let_def)

lemma equator_zoom_1:
  "render_tiles_zoom (GoogleProjection_init 2 256) (- 180, 0) (180, 0) ''n'' 256 ''t'' ''png'' 1 =
     Inr [(''n'', ''t/1/0/1.png'', 0, 1, 1), (''n'', ''t/1/1/1.png'', 1, 1, 1)]"
  by (simp add: render_tiles_zoom_def equator_pixels ebind_def tile_index_def py_truediv_def
      py_int_def py_range_def upto.simps render_tiles_x_def render_tiles_y_def py_pow2_def
      py_str_int_digits os_path_join_def os_path_join_step_def)

lemma equator_zoom_0:
  "render_tiles_zoom (GoogleProjection_init 2 256) (- 180, 0) (180, 0) ''n'' 256 ''t'' ''png'' 0 =
     Inr [(''n'', ''t/0/0/0.png'', 0, 0, 0)]"
  by (simp add: render_tiles_zoom_def equator_pixels ebind_def tile_index_def py_truediv_def
      py_int_def py_range_def upto.simps render_tiles_x_def render_tiles_y_def py_pow2_def
      py_str_int_digits os_path_join_def os_path_join_step_def)

lemma equator_puts:
  "render_tiles_puts (- 180, 0, 180, 0) 0 1 ''n'' 256 ''t'' ''png'' =
     ([(''n'', ''t/0/0/0.png'', 0, 0, 0), (''n'', ''t/1/0/1.png'', 0, 1, 1),
       (''n'', ''t/1/1/1.png'', 1, 1, 1)], None)"
  by (simp add: render_tiles_puts_def Let_def py_range_def upto.simps equator_zoom_0 equator_zoom_1)

text \<open>
  The theorem on the equator of the whole longitude range, zoom 0 to 1, 256 pixel tiles:
  at zoom 1 the rectangle is \<open>x \<in> {0, 1, 2}\<close>, \<open>y = 1\<close>, and \<open>x = 2\<close> is dropped.
\<close>

theorem render_tiles_in_range_witness:
  "fst (render_tiles_puts (- 180, 0, 180, 0) 0 1 ''n'' 256 ''t'' ''png'') =
     [(''n'', ''t/0/0/0.png'', 0, 0, 0), (''n'', ''t/1/0/1.png'', 0, 1, 1),
      (''n'', ''t/1/1/1.png'', 1, 1, 1)] \<and>
   real_of_int 0 < py_pow2 0 \<and> real_of_int 1 < py_pow2 1 \<and> \<not> real_of_int 2 < py_pow2 1 \<and>
   List.product
     (py_range (py_int (real_of_int 0 / real_of_int 256)) (py_int (real_of_int 512 / real_of_int 256) + 1))
     (py_range (py_int (real_of_int 256 / real_of_int 256)) (py_int (real_of_int 256 / real_of_int 256) + 1)) =
     [(0, 1), (1, 1), (2, 1)] \<and>
   render_tiles_zoom (GoogleProjection_init 2 256) (- 180, 0) (180, 0) ''n'' 256 ''t'' ''png'' 1 =
     Inr [(''n'', ''t/1/0/1.png'', 0, 1, 1), (''n'', ''t/1/1/1.png'', 1, 1, 1)]"
  using render_tiles_in_range [of "(- 180, 0, 180, 0)" 0 1 "''n''" 256 "''t''" "''png''"
      "GoogleProjection_init 2 256" "(- 180, 0)" 1 "(0, 256)" "(180, 0)" "(512, 256)"]
  by (simp add: equator_puts equator_pixels equator_zoom_1 py_pow2_def py_int_def py_range_def
      upto.simps)

section \<open>The worker loop\<close>

lemma render_tile_result:
  assumes "render_tile self tile_uri x y z = Inr (self', call)"
  shows "\<exists>l0 l1.
     from_pixel_to_ll (tile_proj self) (x * tile_size self, (y + 1) * tile_size self) z = Inr l0 \<and>
     from_pixel_to_ll (tile_proj self) ((x + 1) * tile_size self, y * tile_size self) z = Inr l1 \<and>
     rc_bbox call = tr_forward self (fst l0, snd l0, fst l1, snd l1) \<and>
     rc_uri call = tile_uri \<and> rc_size call = tile_size self"
  using assms
  by (auto simp: render_tile_def ebind_def Let_def split: sum.splits)

lemma render_tile_keeps:
  assumes "render_tile self tile_uri x y z = Inr (self', call)"
  shows "tile_proj self' = tile_proj self \<and> tile_size self' = tile_size self \<and>
     tr_forward self' = tr_forward self \<and> tile_fmt self' = tile_fmt self"
  using assms
  by (auto simp: render_tile_def ebind_def Let_def split: sum.splits if_splits)


lemma os_stat_size_file:
  "os_path_isfile fs p \<Longrightarrow> \<exists>n. os_stat_size fs p = Inr n"
  by (auto simp: os_path_isfile_def os_stat_size_def split: option.splits node.splits)

lemma loop_body_exists:
  assumes "os_path_isfile fs tile_uri"
  shows "\<exists>empty. loop_body debug self fs (name, tile_uri, x, y, z) =
     Inr (self, fs, [Logged (name, z, x, y, ''exists'', empty), TaskDone])"
proof -
  from os_stat_size_file [OF assms] obtain n where "os_stat_size fs tile_uri = Inr n" ..
  with assms show ?thesis
    by (simp add: loop_body_def ebind_def)
qed

lemma loop_body_absent:
  assumes "\<not> os_path_isfile fs tile_uri"
  shows "loop_body debug self fs (name, tile_uri, x, y, z) =
     (case render_tile self tile_uri x y z of
        Inl err \<Rightarrow> Inl err
      | Inr (self', call) \<Rightarrow>
          Inr (self', fs(tile_uri \<mapsto> File (m_render self' call)),
               [Rendered call,
                Logged (name, z, x, y, '''',
                  if debug \<and> int (length (m_render self' call)) \<in> {103, 126, 222} then ''empty'' else ''''),
                TaskDone]))"
  using assms
  by (auto simp: loop_body_def ebind_def os_stat_size_def split: sum.splits)

lemma isfile_update:
  "os_path_isfile (fs(u \<mapsto> File c)) p = (p = u \<or> os_path_isfile fs p)"
  by (simp add: os_path_isfile_def)

lemma loop_body_effect:
  assumes "loop_body debug self fs (name, tile_uri, x, y, z) = Inr (self', fs', evs)"
  shows "os_path_isfile fs' tile_uri \<and> (\<forall>p. os_path_isfile fs p \<longrightarrow> os_path_isfile fs' p) \<and>
     tile_proj self' = tile_proj self \<and> tile_size self' = tile_size self \<and>
     tr_forward self' = tr_forward self \<and> tile_fmt self' = tile_fmt self"
proof (cases "os_path_isfile fs tile_uri")
  case True
  from loop_body_exists [OF True, of debug self name x y z] assms
  show ?thesis using True by auto
next
  case False
  show ?thesis
  proof (cases "render_tile self tile_uri x y z")
    case (Inl err)
    with assms False show ?thesis by (simp add: loop_body_absent)
  next
    case (Inr res)
    obtain s c where res: "res = (s, c)" by (cases res)
    from assms False Inr res have "self' = s" "fs' = fs(tile_uri \<mapsto> File (m_render s c))"
      by (auto simp: loop_body_absent)
    with render_tile_keeps [OF Inr [unfolded res]] show ?thesis
      by (simp add: isfile_update)
  qed
qed




lemma GoogleProjection_init_1_256:
  "GoogleProjection_init 1 256 =
     \<lparr>Bc = [256 / 360], Cc = [256 / (2 * pi)], zc = [(128, 128)], Ac = [256]\<rparr>"
  by (simp add: GoogleProjection_init_def Let_def)

lemma world_tile_corners:
  "from_pixel_to_ll (GoogleProjection_init 1 256) (0, 256) 0 =
     Inr (- 180, RAD_TO_DEG * (2 * arctan (exp (- pi)) - 0.5 * pi))"
  "from_pixel_to_ll (GoogleProjection_init 1 256) (256, 0) 0 =
     Inr (180, RAD_TO_DEG * (2 * arctan (exp pi) - 0.5 * pi))"
  by (simp_all add: GoogleProjection_init_1_256 from_pixel_to_ll_def ebind_def py_getitem_def
      py_truediv_def Let_def)

lemma world_tile_render:
  "render_tile (RenderThread_init tr 0 rnd 0 256 ''png'') ''t/0/0/0.png'' 0 0 0 =
     Inr (RenderThread_init tr 128 rnd 0 256 ''png'',
          \<lparr>rc_bbox = tr (- 180, RAD_TO_DEG * (2 * arctan (exp (- pi)) - 0.5 * pi),
                          180, RAD_TO_DEG * (2 * arctan (exp pi) - 0.5 * pi)),
           rc_buffer = 128, rc_size = 256, rc_uri = ''t/0/0/0.png'', rc_format = ''png:z=9:s=rle''\<rparr>)"
  by (simp add: render_tile_def RenderThread_init_def world_tile_corners ebind_def Let_def)




lemma loop_body_rendered:
  assumes "loop_body debug self fs (name, tile_uri, x, y, z) = Inr (self', fs', evs)"
    and "Rendered call \<in> set evs"
  shows "render_tile self tile_uri x y z = Inr (self', call)"
proof (cases "os_path_isfile fs tile_uri")
  case True
  from loop_body_exists [OF True, of debug self name x y z] assms show ?thesis by auto
next
  case False
  with assms show ?thesis
    by (auto simp: loop_body_absent split: sum.splits)
qed

lemma loop_rendered:
  assumes "loop debug self fs items = (out, self1, fs1, evs)" and "Rendered call \<in> set evs"
  shows "\<exists>name x y z self0 self0'.
     Some (name, rc_uri call, x, y, z) \<in> set items \<and>
     render_tile self0 (rc_uri call) x y z = Inr (self0', call) \<and>
     tile_proj self0 = tile_proj self \<and> tile_size self0 = tile_size self \<and>
     tr_forward self0 = tr_forward self"
  using assms
proof (induction items arbitrary: self fs out self1 fs1 evs)
  case Nil
  then show ?case by simp
next
  case (Cons it items)
  show ?case
  proof (cases it)
    case None
    with Cons.prems show ?thesis by auto
  next
    case (Some r)
    obtain name tile_uri x y z where r: "r = (name, tile_uri, x, y, z)" by (cases r)
    show ?thesis
    proof (cases "loop_body debug self fs r")
      case (Inl err)
      with Cons.prems Some show ?thesis by auto
    next
      case (Inr res)
      obtain sa fa ea where res: "res = (sa, fa, ea)" by (cases res)
      obtain o2 s2 f2 e2 where rest: "loop debug sa fa items = (o2, s2, f2, e2)"
        by (cases "loop debug sa fa items")
      from Cons.prems(1) Some Inr res rest have "evs = ea @ e2" by simp
      with Cons.prems(2) have "Rendered call \<in> set ea \<or> Rendered call \<in> set e2" by auto
      then show ?thesis
      proof
        assume "Rendered call \<in> set ea"
        from loop_body_rendered [OF Inr [unfolded res r] this]
        have rt: "render_tile self tile_uri x y z = Inr (sa, call)" .
        from render_tile_result [OF rt] have u: "rc_uri call = tile_uri" by blast
        with Some r have "Some (name, rc_uri call, x, y, z) \<in> set (it # items)" by simp
        with rt u show ?thesis by blast
      next
        assume "Rendered call \<in> set e2"
        from Cons.IH [OF rest this] loop_body_effect [OF Inr [unfolded res r]]
        show ?thesis by (simp add: Some) metis
      qed
    qed
  qed
qed

text \<open>
  Claim C7. Whenever \<open>render_tile\<close> renders a tile \<open>(x, y, z)\<close>, both pixel corners
  \<open>(x * tile_size, (y + 1) * tile_size)\<close> and \<open>((x + 1) * tile_size, y * tile_size)\<close> convert
  through \<open>from_pixel_to_ll\<close> at zoom \<open>z\<close>, and the box handed to the renderer is the
  worker's transform applied once to the box of the two converted corners. The same holds
  for every rendering in the trace of the worker's loop, for the request it belongs to.
\<close>

theorem render_tile_bbox:
  "(render_tile self tile_uri x y z = Inr (self', call) \<longrightarrow>
      (\<exists>l0 l1.
         from_pixel_to_ll (tile_proj self) (x * tile_size self, (y + 1) * tile_size self) z = Inr l0 \<and>
         from_pixel_to_ll (tile_proj self) ((x + 1) * tile_size self, y * tile_size self) z = Inr l1 \<and>
         rc_bbox call = tr_forward self (fst l0, snd l0, fst l1, snd l1) \<and>
         rc_uri call = tile_uri)) \<and>
   (Rendered rendered \<in> set (snd (snd (snd (loop debug self fs items)))) \<longrightarrow>
      (\<exists>name x y z l0 l1.
         Some (name, rc_uri rendered, x, y, z) \<in> set items \<and>
         from_pixel_to_ll (tile_proj self) (x * tile_size self, (y + 1) * tile_size self) z = Inr l0 \<and>
         from_pixel_to_ll (tile_proj self) ((x + 1) * tile_size self, y * tile_size self) z = Inr l1 \<and>
         rc_bbox rendered = tr_forward self (fst l0, snd l0, fst l1, snd l1)))"
proof (intro conjI impI)
  assume "render_tile self tile_uri x y z = Inr (self', call)"
  from render_tile_result [OF this]
  show "\<exists>l0 l1.
         from_pixel_to_ll (tile_proj self) (x * tile_size self, (y + 1) * tile_size self) z = Inr l0 \<and>
         from_pixel_to_ll (tile_proj self) ((x + 1) * tile_size self, y * tile_size self) z = Inr l1 \<and>
         rc_bbox call = tr_forward self (fst l0, snd l0, fst l1, snd l1) \<and>
         rc_uri call = tile_uri"
    by blast
next
  assume a: "Rendered rendered \<in> set (snd (snd (snd (loop debug self fs items))))"
  obtain out s1 f1 evs where l: "loop debug self fs items = (out, s1, f1, evs)"
    by (cases "loop debug self fs items")
  with a have "Rendered rendered \<in> set evs" by simp
  from loop_rendered [OF l this] obtain name x y z self0 self0' where
    it: "Some (name, rc_uri rendered, x, y, z) \<in> set items"
    and rt: "render_tile self0 (rc_uri rendered) x y z = Inr (self0', rendered)"
    and eq: "tile_proj self0 = tile_proj self" "tile_size self0 = tile_size self"
      "tr_forward self0 = tr_forward self"
    by blast
  from render_tile_result [OF rt] eq it
  show "\<exists>name x y z l0 l1.
         Some (name, rc_uri rendered, x, y, z) \<in> set items \<and>
         from_pixel_to_ll (tile_proj self) (x * tile_size self, (y + 1) * tile_size self) z = Inr l0 \<and>
         from_pixel_to_ll (tile_proj self) ((x + 1) * tile_size self, y * tile_size self) z = Inr l1 \<and>
         rc_bbox rendered = tr_forward self (fst l0, snd l0, fst l1, snd l1)"
    by (simp del: ex_simps) blast
qed

lemma halving_tile_render:
  "render_tile (RenderThread_init (\<lambda>(a, b, c, d). (a / 2, b / 2, c / 2, d / 2)) 0 (\<lambda>c. ''img'') 0 256 ''png'') ''t/0/0/0.png'' 0 0 0 =
     Inr ((RenderThread_init (\<lambda>(a, b, c, d). (a / 2, b / 2, c / 2, d / 2)) 128 (\<lambda>c. ''img'') 0 256 ''png''),
        \<lparr>rc_bbox = (- 90, RAD_TO_DEG * (2 * arctan (exp (- pi)) - 0.5 * pi) / 2, 90, RAD_TO_DEG * (2 * arctan (exp pi) - 0.5 * pi) / 2), rc_buffer = 128, rc_size = 256, rc_uri = ''t/0/0/0.png'', rc_format = ''png:z=9:s=rle''\<rparr>)"
  using world_tile_render [of "\<lambda>(a, b, c, d). (a / 2, b / 2, c / 2, d / 2)" "\<lambda>c. ''img''"]
  by simp

lemma halving_run:
  "loop False (RenderThread_init (\<lambda>(a, b, c, d). (a / 2, b / 2, c / 2, d / 2)) 0 (\<lambda>c. ''img'') 0 256 ''png'') Map.empty
     [Some (''n'', ''t/0/0/0.png'', 0, 0, 0), None] =
   (Stopped, (RenderThread_init (\<lambda>(a, b, c, d). (a / 2, b / 2, c / 2, d / 2)) 128 (\<lambda>c. ''img'') 0 256 ''png''),
    [''t/0/0/0.png'' \<mapsto> File ''img''],
    [Rendered
       \<lparr>rc_bbox = (- 90, RAD_TO_DEG * (2 * arctan (exp (- pi)) - 0.5 * pi) / 2, 90, RAD_TO_DEG * (2 * arctan (exp pi) - 0.5 * pi) / 2), rc_buffer = 128, rc_size = 256, rc_uri = ''t/0/0/0.png'', rc_format = ''png:z=9:s=rle''\<rparr>,
     Logged (''n'', 0, 0, 0, '''', ''''), TaskDone, TaskDone])"
  by (simp add: loop_body_def ebind_def os_path_isfile_def halving_tile_render)
    (simp add: RenderThread_init_def)

text \<open>
  The theorem at the tile \<open>(0, 0, 0)\<close> of 256 pixels, for a worker whose transform halves
  every coordinate: the call of \<open>render_tile\<close>, and the rendering in the trace of a loop
  over that request and a sentinel.
\<close>

theorem render_tile_bbox_witness:
  "render_tile (RenderThread_init (\<lambda>(a, b, c, d). (a / 2, b / 2, c / 2, d / 2)) 0 (\<lambda>c. ''img'') 0 256 ''png'') ''t/0/0/0.png'' 0 0 0 =
     Inr ((RenderThread_init (\<lambda>(a, b, c, d). (a / 2, b / 2, c / 2, d / 2)) 128 (\<lambda>c. ''img'') 0 256 ''png''),
        \<lparr>rc_bbox = (- 90, RAD_TO_DEG * (2 * arctan (exp (- pi)) - 0.5 * pi) / 2, 90, RAD_TO_DEG * (2 * arctan (exp pi) - 0.5 * pi) / 2), rc_buffer = 128, rc_size = 256, rc_uri = ''t/0/0/0.png'', rc_format = ''png:z=9:s=rle''\<rparr>) \<and>
   Rendered
        \<lparr>rc_bbox = (- 90, RAD_TO_DEG * (2 * arctan (exp (- pi)) - 0.5 * pi) / 2, 90, RAD_TO_DEG * (2 * arctan (exp pi) - 0.5 * pi) / 2), rc_buffer = 128, rc_size = 256, rc_uri = ''t/0/0/0.png'', rc_format = ''png:z=9:s=rle''\<rparr>
     \<in> set (snd (snd (snd (loop False (RenderThread_init (\<lambda>(a, b, c, d). (a / 2, b / 2, c / 2, d / 2)) 0 (\<lambda>c. ''img'') 0 256 ''png'') Map.empty
          [Some (''n'', ''t/0/0/0.png'', 0, 0, 0), None])))) \<and>
   (\<exists>l0 l1.
      from_pixel_to_ll (GoogleProjection_init 1 256) (0 * 256, (0 + 1) * 256) 0 = Inr l0 \<and>
      from_pixel_to_ll (GoogleProjection_init 1 256) ((0 + 1) * 256, 0 * 256) 0 = Inr l1 \<and>
      (- 90, RAD_TO_DEG * (2 * arctan (exp (- pi)) - 0.5 * pi) / 2,
       90, RAD_TO_DEG * (2 * arctan (exp pi) - 0.5 * pi) / 2) =
        (fst l0 / 2, snd l0 / 2, fst l1 / 2, snd l1 / 2)) \<and>
   (\<exists>name x y z l0 l1.
      Some (name, ''t/0/0/0.png'', x, y, z) \<in> set [Some (''n'', ''t/0/0/0.png'', 0, 0, 0), None] \<and>
      from_pixel_to_ll (GoogleProjection_init 1 256) (x * 256, (y + 1) * 256) z = Inr l0 \<and>
      from_pixel_to_ll (GoogleProjection_init 1 256) ((x + 1) * 256, y * 256) z = Inr l1 \<and>
      (- 90, RAD_TO_DEG * (2 * arctan (exp (- pi)) - 0.5 * pi) / 2,
       90, RAD_TO_DEG * (2 * arctan (exp pi) - 0.5 * pi) / 2) =
        (fst l0 / 2, snd l0 / 2, fst l1 / 2, snd l1 / 2))"
  using render_tile_bbox [where self = "RenderThread_init (\<lambda>(a, b, c, d). (a / 2, b / 2, c / 2, d / 2)) 0 (\<lambda>c. ''img'') 0 256 ''png''"
      and tile_uri = "''t/0/0/0.png''" and x = 0 and y = 0 and z = 0
      and self' = "RenderThread_init (\<lambda>(a, b, c, d). (a / 2, b / 2, c / 2, d / 2)) 128 (\<lambda>c. ''img'') 0 256 ''png''"
      and call = "\<lparr>rc_bbox = (- 90, RAD_TO_DEG * (2 * arctan (exp (- pi)) - 0.5 * pi) / 2, 90, RAD_TO_DEG * (2 * arctan (exp pi) - 0.5 * pi) / 2), rc_buffer = 128, rc_size = 256, rc_uri = ''t/0/0/0.png'', rc_format = ''png:z=9:s=rle''\<rparr>"
      and rendered = "\<lparr>rc_bbox = (- 90, RAD_TO_DEG * (2 * arctan (exp (- pi)) - 0.5 * pi) / 2, 90, RAD_TO_DEG * (2 * arctan (exp pi) - 0.5 * pi) / 2), rc_buffer = 128, rc_size = 256, rc_uri = ''t/0/0/0.png'', rc_format = ''png:z=9:s=rle''\<rparr>"
      and debug = False and fs = Map.empty and items = "[Some (''n'', ''t/0/0/0.png'', 0, 0, 0), None]"]
    halving_tile_render halving_run
  by (simp add: RenderThread_init_def)

section \<open>The paths of the tiles\<close>

lemma tiles_dir_of_shape: "\<exists>d. tiles_dir_of inp = d @ ''tiles''"
  by (auto simp: tiles_dir_of_def os_path_join_def os_path_join_step_def)

lemma os_path_join_step_relative:
  assumes "\<not> prefix ''/'' b" and "path \<noteq> []" and "last path \<noteq> CHR ''/''"
  shows "os_path_join_step path b = path @ ''/'' @ b"
  using assms by (simp add: os_path_join_step_def)

lemma os_path_join_step_prefix:
  assumes "\<not> prefix ''/'' b" and "prefix q path"
  shows "prefix q (os_path_join_step path b)"
  using assms by (auto simp: os_path_join_step_def prefix_def)

lemma os_path_join_step_suffix: "suffix b (os_path_join_step path b)"
  by (auto simp: os_path_join_step_def suffix_def)

lemma digit_char_not_slash: "d < 10 \<Longrightarrow> digit_char d \<noteq> CHR ''/''"
proof -
  assume "d < 10"
  then have "d \<in> {0, 1, 2, 3, 4, 5, 6, 7, 8, 9}" by auto
  then show ?thesis by (auto simp: digit_char_def)
qed

lemma py_str_nat_head: "py_str_nat n \<noteq> [] \<and> hd (py_str_nat n) \<noteq> CHR ''/''"
proof (induction n rule: py_str_nat.induct)
  case (1 n)
  show ?case
  proof (cases "n < 10")
    case True
    then show ?thesis
      by (simp add: py_str_nat.simps [of n] digit_char_not_slash)
  next
    case False
    with "1" show ?thesis
      by (simp add: py_str_nat.simps [of n])
  qed
qed

lemma py_str_int_relative: "\<not> prefix ''/'' (py_str_int i @ rest)"
proof (cases "i < 0")
  case True
  then show ?thesis by (simp add: py_str_int_def)
next
  case False
  obtain c cs where "py_str_nat (nat i) = c # cs" "c \<noteq> CHR ''/''"
    using py_str_nat_head [of "nat i"] by (cases "py_str_nat (nat i)") auto
  with False show ?thesis by (simp add: py_str_int_def)
qed

lemma tile_uri_under:
  assumes "tile_dir \<noteq> []" and "last tile_dir \<noteq> CHR ''/''"
  shows "prefix (tile_dir @ ''/'')
     (os_path_join tile_dir [py_str_int z, py_str_int x, py_str_int y @ ''.'' @ tile_ext])"
proof -
  have a: "\<not> prefix ''/'' (py_str_int z)" "\<not> prefix ''/'' (py_str_int x)"
    "\<not> prefix ''/'' (py_str_int y @ ''.'' @ tile_ext)"
    using py_str_int_relative [of z "[]"] py_str_int_relative [of x "[]"]
      py_str_int_relative [of y "''.'' @ tile_ext"] by simp_all
  have "prefix (tile_dir @ ''/'') (os_path_join_step tile_dir (py_str_int z))"
    using os_path_join_step_relative [OF a(1) assms] by simp
  from os_path_join_step_prefix [OF a(2) this]
  have "prefix (tile_dir @ ''/'')
      (os_path_join_step (os_path_join_step tile_dir (py_str_int z)) (py_str_int x))" .
  from os_path_join_step_prefix [OF a(3) this] show ?thesis
    by (simp add: os_path_join_def)
qed

lemma tile_uri_suffix:
  "suffix (''.'' @ tile_ext)
     (os_path_join tile_dir [py_str_int z, py_str_int x, py_str_int y @ ''.'' @ tile_ext])"
proof -
  have "suffix (py_str_int y @ ''.'' @ tile_ext)
     (os_path_join tile_dir [py_str_int z, py_str_int x, py_str_int y @ ''.'' @ tile_ext])"
    unfolding os_path_join_def foldl.simps by (rule os_path_join_step_suffix)
  moreover have "suffix (''.'' @ tile_ext) (py_str_int y @ ''.'' @ tile_ext)"
    by (rule suffix_appendI) simp
  ultimately show ?thesis by (rule suffix_order.trans [rotated])
qed

lemma render_tiles_zoom_uri:
  assumes "render_tiles_zoom gprj ll0 ll1 name ts tile_dir tile_ext z = Inr reqs"
    and "(n, uri, x, y, z') \<in> set reqs"
  shows "uri = os_path_join tile_dir [py_str_int z', py_str_int x, py_str_int y @ ''.'' @ tile_ext]"
  using assms
  by (auto simp: render_tiles_zoom_def ebind_def render_tiles_x_filter split: sum.splits)

lemma render_tiles_zooms_uri:
  assumes "(n, uri, x, y, z) \<in> set (fst (render_tiles_zooms gprj ll0 ll1 name ts tile_dir tile_ext zs))"
  shows "uri = os_path_join tile_dir [py_str_int z, py_str_int x, py_str_int y @ ''.'' @ tile_ext]"
  using assms
proof (induction zs)
  case Nil
  then show ?case by simp
next
  case (Cons a zs)
  show ?case
  proof (cases "render_tiles_zoom gprj ll0 ll1 name ts tile_dir tile_ext a")
    case (Inl err)
    with Cons.prems show ?thesis by simp
  next
    case (Inr reqs)
    with Cons.prems have "(n, uri, x, y, z) \<in> set reqs \<or>
        (n, uri, x, y, z) \<in> set (fst (render_tiles_zooms gprj ll0 ll1 name ts tile_dir tile_ext zs))"
      by (auto split: prod.splits)
    then show ?thesis
      using render_tiles_zoom_uri [OF Inr] Cons.IH by blast
  qed
qed

lemma render_tiles_puts_uri:
  assumes "(n, uri, x, y, z) \<in> set (fst (render_tiles_puts bbox min_zoom max_zoom name ts tile_dir tile_ext))"
  shows "uri = os_path_join tile_dir [py_str_int z, py_str_int x, py_str_int y @ ''.'' @ tile_ext]"
proof -
  obtain b0 b1 b2 b3 where bb: "bbox = (b0, b1, b2, b3)" by (cases bbox) auto
  from assms bb show ?thesis
    by (auto simp: render_tiles_puts_def Let_def dest: render_tiles_zooms_uri)
qed

lemma render_tiles_items:
  assumes "render_tiles tr buf rnd bbox min_zoom max_zoom threads name ts fmt tile_dir tile_ext =
      (workers, items, err)"
  shows "(\<forall>w \<in> set workers. w = RenderThread_init tr buf rnd max_zoom ts fmt) \<and>
     (\<forall>r. Some r \<in> set items \<longrightarrow>
        r \<in> set (fst (render_tiles_puts bbox min_zoom max_zoom name ts tile_dir tile_ext)))"
proof -
  obtain puts e where p: "render_tiles_puts bbox min_zoom max_zoom name ts tile_dir tile_ext = (puts, e)"
    by (cases "render_tiles_puts bbox min_zoom max_zoom name ts tile_dir tile_ext")
  from assms p show ?thesis
    by (cases e) (auto simp: render_tiles_def Let_def)
qed

lemma tiles_dir_of_nonempty: "tiles_dir_of inp \<noteq> [] \<and> last (tiles_dir_of inp) \<noteq> CHR ''/''"
proof -
  obtain d where "tiles_dir_of inp = d @ ''tiles''" using tiles_dir_of_shape by blast
  then show ?thesis by simp
qed

lemma shutil_rmtree_effect:
  "shutil_rmtree fs d d = None"
  "prefix (d @ ''/'') p \<Longrightarrow> shutil_rmtree fs d p = None"
  "p \<noteq> d \<Longrightarrow> \<not> prefix (d @ ''/'') p \<Longrightarrow> shutil_rmtree fs d p = fs p"
  by (simp_all add: shutil_rmtree_def)

section \<open>The tile directory is removed first\<close>

text \<open>
  Claim C9. The program removes the directory \<open>tiles\<close> beside the input style file, with
  everything below it, before it calls \<open>render_tiles\<close>: when that directory exists, the file
  system that \<open>render_tiles\<close> and its workers start from holds nothing at or below its path,
  so no request of the run finds a file at its destination; paths outside the directory
  are untouched, and without such a directory nothing is removed.
\<close>

theorem main_removes_tiles_dir:
  "main_render tr buf rnd a fs = (fs', workers, items, err) \<longrightarrow>
     (os_path_isdir fs (tiles_dir_of (input_arg a)) \<longrightarrow>
        fs' (tiles_dir_of (input_arg a)) = None \<and>
        (\<forall>p. prefix (tiles_dir_of (input_arg a) @ ''/'') p \<longrightarrow> fs' p = None) \<and>
        (\<forall>n u x y z. Some (n, u, x, y, z) \<in> set items \<longrightarrow>
           prefix (tiles_dir_of (input_arg a) @ ''/'') u \<and> \<not> os_path_isfile fs' u)) \<and>
     (\<not> os_path_isdir fs (tiles_dir_of (input_arg a)) \<longrightarrow> fs' = fs) \<and>
     (\<forall>p. p \<noteq> tiles_dir_of (input_arg a) \<and> \<not> prefix (tiles_dir_of (input_arg a) @ ''/'') p \<longrightarrow>
        fs' p = fs p)"
proof
  let ?d = "tiles_dir_of (input_arg a)"
  assume m: "main_render tr buf rnd a fs = (fs', workers, items, err)"
  then have fs': "fs' = (if os_path_isdir fs ?d then shutil_rmtree fs ?d else fs)"
    by (auto simp: main_render_def Let_def os_path_isdir_def os_path_exists_def)
  from m have rt: "render_tiles tr buf rnd (main_bbox (bbox_arg a)) (min_arg a) (max_arg a)
      (threads_arg a) (name_arg a) (size_arg a) (format_arg a) ?d (tiles_ext_of (format_arg a)) =
      (workers, items, err)"
    by (simp add: main_render_def Let_def)
  have under: "prefix (?d @ ''/'') u" if "Some (n, u, x, y, z) \<in> set items" for n u x y z
  proof -
    from render_tiles_items [OF rt] that
    have "(n, u, x, y, z) \<in> set (fst (render_tiles_puts (main_bbox (bbox_arg a)) (min_arg a)
        (max_arg a) (name_arg a) (size_arg a) ?d (tiles_ext_of (format_arg a))))"
      by blast
    from render_tiles_puts_uri [OF this]
    have u: "u = os_path_join ?d
        [py_str_int z, py_str_int x, py_str_int y @ ''.'' @ tiles_ext_of (format_arg a)]" .
    from tiles_dir_of_nonempty [of "input_arg a"] show ?thesis
      unfolding u by (intro tile_uri_under) simp_all
  qed
  have gone: "fs' ?d = None \<and> (\<forall>p. prefix (?d @ ''/'') p \<longrightarrow> fs' p = None)"
    if "os_path_isdir fs ?d"
    using that fs' by (simp add: shutil_rmtree_effect)
  have nofile: "\<not> os_path_isfile fs' u" if "os_path_isdir fs ?d" "prefix (?d @ ''/'') u" for u
    using gone [OF that(1)] that(2) by (simp add: os_path_isfile_def)
  have frame: "fs' p = fs p" if "p \<noteq> ?d \<and> \<not> prefix (?d @ ''/'') p" for p
    using that fs' by (simp add: shutil_rmtree_effect)
  from under gone nofile frame fs'
  show "(os_path_isdir fs ?d \<longrightarrow>
        fs' ?d = None \<and>
        (\<forall>p. prefix (?d @ ''/'') p \<longrightarrow> fs' p = None) \<and>
        (\<forall>n u x y z. Some (n, u, x, y, z) \<in> set items \<longrightarrow>
           prefix (?d @ ''/'') u \<and> \<not> os_path_isfile fs' u)) \<and>
     (\<not> os_path_isdir fs ?d \<longrightarrow> fs' = fs) \<and>
     (\<forall>p. p \<noteq> ?d \<and> \<not> prefix (?d @ ''/'') p \<longrightarrow> fs' p = fs p)"
    by (intro conjI impI allI) auto
qed

section \<open>metadata.json\<close>

lemma metadata_keys:
  "map fst (metadata mbtiles_path tiles_ext bounds mn mx) =
     [''name'', ''format'', ''bounds'', ''minzoom'', ''maxzoom'', ''attribution'', ''description'',
      ''type'', ''version'']"
  by (simp add: metadata_def)

lemma json_dump_members_props:
  "set (json_dump_members d) = set d"
  "sorted (map fst (json_dump_members d))"
  "distinct (map fst d) \<Longrightarrow> distinct (map fst (json_dump_members d))"
proof -
  show "set (json_dump_members d) = set d" by (simp add: json_dump_members_def)
  show "sorted (map fst (json_dump_members d))" by (simp add: json_dump_members_def)
  have ins: "distinct (map fst (insort_key fst x xs)) = (fst x \<notin> fst ` set xs \<and> distinct (map fst xs))"
    for x :: "string \<times> string" and xs
    by (induction xs) (auto simp: set_insort_key)
  assume "distinct (map fst d)"
  then show "distinct (map fst (json_dump_members d))"
    unfolding json_dump_members_def
    by (induction d) (simp_all add: ins)
qed

text \<open>
  Claim C8. When the program writes \<open>metadata.json\<close>, an output path was given, the file is
  at the root of the tile directory, its members are exactly the entries of the metadata
  dictionary whose value is not the empty string, and they are written in ascending
  order of their keys, each key once.
\<close>

theorem metadata_json_members:
  "main_metadata a bounds fs = Inr (Some (path, members)) \<longrightarrow>
     output_arg a \<noteq> [] \<and>
     path = tiles_dir_of (input_arg a) @ ''/metadata.json'' \<and>
     (\<forall>k v. (k, v) \<in> set members \<longleftrightarrow>
        (k, v) \<in> set (metadata (output_arg a) (tiles_ext_of (format_arg a)) bounds (min_arg a) (max_arg a)) \<and>
        v \<noteq> []) \<and>
     sorted (map fst members) \<and> distinct (map fst members)"
proof
  let ?md = "metadata (output_arg a) (tiles_ext_of (format_arg a)) bounds (min_arg a) (max_arg a)"
  assume m: "main_metadata a bounds fs = Inr (Some (path, members))"
  then have given: "output_arg a \<noteq> []"
    by (auto simp: main_metadata_def Let_def split: if_splits)
  from m have p: "path = os_path_join (tiles_dir_of (input_arg a)) [''metadata.json'']"
    and mem: "members = json_dump_members (filter (\<lambda>(k, v). v \<noteq> []) ?md)"
    by (auto simp: main_metadata_def Let_def split: if_splits)
  have "path = tiles_dir_of (input_arg a) @ ''/metadata.json''"
    using tiles_dir_of_nonempty [of "input_arg a"]
    by (simp add: p os_path_join_def os_path_join_step_def)
  moreover have "\<forall>k v. (k, v) \<in> set members \<longleftrightarrow> (k, v) \<in> set ?md \<and> v \<noteq> []"
    by (auto simp: mem json_dump_members_props(1))
  moreover have "sorted (map fst members)"
    by (simp add: mem json_dump_members_props(2))
  moreover have "distinct (map fst members)"
  proof -
    have "distinct (map fst ?md)" by (simp add: metadata_keys)
    then have "distinct (map fst (filter (\<lambda>(k, v). v \<noteq> []) ?md))"
      by (rule distinct_map_filter)
    then show ?thesis by (simp add: mem json_dump_members_props(3))
  qed
  ultimately show "output_arg a \<noteq> [] \<and>
     path = tiles_dir_of (input_arg a) @ ''/metadata.json'' \<and>
     (\<forall>k v. (k, v) \<in> set members \<longleftrightarrow> (k, v) \<in> set ?md \<and> v \<noteq> []) \<and>
     sorted (map fst members) \<and> distinct (map fst members)"
    using given by blast
qed

section \<open>A run of the program\<close>

lemma equator_zoom_1_paths:
  "render_tiles_zoom (GoogleProjection_init 2 256) (- 180, 0) (180, 0) name 256 tile_dir tile_ext 1 =
     Inr [(name, os_path_join tile_dir [''1'', ''0'', ''1.'' @ tile_ext], 0, 1, 1),
          (name, os_path_join tile_dir [''1'', ''1'', ''1.'' @ tile_ext], 1, 1, 1)]"
  by (simp add: render_tiles_zoom_def equator_pixels ebind_def tile_index_def py_truediv_def
      py_int_def py_range_def upto.simps render_tiles_x_def render_tiles_y_def py_pow2_def
      py_str_int_digits)

lemma example_tiles_dir: "tiles_dir_of ''m/style.xml'' = ''m/tiles''"
  by (simp add: tiles_dir_of_def os_path_dirname_def os_path_join_def os_path_join_step_def)

lemma example_bbox: "main_bbox (Some (- 180, 0, 180, 0)) = (- 180, 0, 180, 0)"
  by (simp add: main_bbox_def MERC_MAX_LATITUDE_def)

lemma example_main_render:
  "main_render (\<lambda>b. b) 0 (\<lambda>c. ''img'')
     \<lparr>input_arg = ''m/style.xml'', output_arg = ''a/out.mbtiles'', min_arg = 1, max_arg = 1,
      bbox_arg = Some (- 180, 0, 180, 0), threads_arg = 1, name_arg = ''n'', size_arg = 256,
      format_arg = fmt\<rparr>
     [''m/style.xml'' \<mapsto> File ''xml'', ''m/tiles'' \<mapsto> Dir, ''m/tiles/1/0/1.png'' \<mapsto> File ''old''] =
   (shutil_rmtree
      [''m/style.xml'' \<mapsto> File ''xml'', ''m/tiles'' \<mapsto> Dir, ''m/tiles/1/0/1.png'' \<mapsto> File ''old'']
      ''m/tiles'',
    [RenderThread_init (\<lambda>b. b) 0 (\<lambda>c. ''img'') 1 256 fmt],
    [Some (''n'', ''m/tiles/1/0/1.'' @ tiles_ext_of fmt, 0, 1, 1),
     Some (''n'', ''m/tiles/1/1/1.'' @ tiles_ext_of fmt, 1, 1, 1), None],
    None)"
  by (simp add: main_render_def example_tiles_dir example_bbox Let_def os_path_exists_def
      os_path_isdir_def render_tiles_def render_tiles_puts_def py_range_def upto.simps
      equator_zoom_1_paths os_path_join_def os_path_join_step_def)

text \<open>
  The theorem on a file system that holds a tile of an earlier run below \<open>m/tiles\<close>: the
  tile is gone when \<open>render_tiles\<close> is called, the style file is not.
\<close>

theorem main_removes_tiles_dir_witness:
  "os_path_isdir [''m/style.xml'' \<mapsto> File ''xml'', ''m/tiles'' \<mapsto> Dir,
       ''m/tiles/1/0/1.png'' \<mapsto> File ''old''] (tiles_dir_of ''m/style.xml'') \<and>
   os_path_isfile [''m/style.xml'' \<mapsto> File ''xml'', ''m/tiles'' \<mapsto> Dir,
       ''m/tiles/1/0/1.png'' \<mapsto> File ''old''] ''m/tiles/1/0/1.png'' \<and>
   Some (''n'', ''m/tiles/1/0/1.png'', 0, 1, 1) \<in> set (fst (snd (snd (main_render (\<lambda>b. b) 0 (\<lambda>c. ''img'')
     \<lparr>input_arg = ''m/style.xml'', output_arg = ''a/out.mbtiles'', min_arg = 1, max_arg = 1,
      bbox_arg = Some (- 180, 0, 180, 0), threads_arg = 1, name_arg = ''n'', size_arg = 256,
      format_arg = ''png''\<rparr>
     [''m/style.xml'' \<mapsto> File ''xml'', ''m/tiles'' \<mapsto> Dir, ''m/tiles/1/0/1.png'' \<mapsto> File ''old''])))) \<and>
   \<not> os_path_isfile (fst (main_render (\<lambda>b. b) 0 (\<lambda>c. ''img'')
     \<lparr>input_arg = ''m/style.xml'', output_arg = ''a/out.mbtiles'', min_arg = 1, max_arg = 1,
      bbox_arg = Some (- 180, 0, 180, 0), threads_arg = 1, name_arg = ''n'', size_arg = 256,
      format_arg = ''png''\<rparr>
     [''m/style.xml'' \<mapsto> File ''xml'', ''m/tiles'' \<mapsto> Dir, ''m/tiles/1/0/1.png'' \<mapsto> File ''old'']))
     ''m/tiles/1/0/1.png'' \<and>
   fst (main_render (\<lambda>b. b) 0 (\<lambda>c. ''img'')
     \<lparr>input_arg = ''m/style.xml'', output_arg = ''a/out.mbtiles'', min_arg = 1, max_arg = 1,
      bbox_arg = Some (- 180, 0, 180, 0), threads_arg = 1, name_arg = ''n'', size_arg = 256,
      format_arg = ''png''\<rparr>
     [''m/style.xml'' \<mapsto> File ''xml'', ''m/tiles'' \<mapsto> Dir, ''m/tiles/1/0/1.png'' \<mapsto> File ''old''])
     ''m/tiles'' = None \<and>
   fst (main_render (\<lambda>b. b) 0 (\<lambda>c. ''img'')
     \<lparr>input_arg = ''m/style.xml'', output_arg = ''a/out.mbtiles'', min_arg = 1, max_arg = 1,
      bbox_arg = Some (- 180, 0, 180, 0), threads_arg = 1, name_arg = ''n'', size_arg = 256,
      format_arg = ''png''\<rparr>
     [''m/style.xml'' \<mapsto> File ''xml'', ''m/tiles'' \<mapsto> Dir, ''m/tiles/1/0/1.png'' \<mapsto> File ''old''])
     ''m/style.xml'' = Some (File ''xml'')"
  using main_removes_tiles_dir [where tr = "\<lambda>b. b" and buf = 0 and rnd = "\<lambda>c. ''img''"
      and a = "\<lparr>input_arg = ''m/style.xml'', output_arg = ''a/out.mbtiles'', min_arg = 1, max_arg = 1,
        bbox_arg = Some (- 180, 0, 180, 0), threads_arg = 1, name_arg = ''n'', size_arg = 256,
        format_arg = ''png''\<rparr>"
      and fs = "[''m/style.xml'' \<mapsto> File ''xml'', ''m/tiles'' \<mapsto> Dir,
        ''m/tiles/1/0/1.png'' \<mapsto> File ''old'']"
      and fs' = "shutil_rmtree [''m/style.xml'' \<mapsto> File ''xml'', ''m/tiles'' \<mapsto> Dir,
        ''m/tiles/1/0/1.png'' \<mapsto> File ''old''] ''m/tiles''"
      and workers = "[RenderThread_init (\<lambda>b. b) 0 (\<lambda>c. ''img'') 1 256 ''png'']"
      and items = "[Some (''n'', ''m/tiles/1/0/1.png'', 0, 1, 1),
        Some (''n'', ''m/tiles/1/1/1.png'', 1, 1, 1), None]"
      and err = None]
    example_main_render [of "''png''"]
  by (simp add: example_tiles_dir os_path_isdir_def os_path_isfile_def shutil_rmtree_def
      tiles_ext_of_def)

lemma example_metadata:
  "main_metadata
     \<lparr>input_arg = ''m/style.xml'', output_arg = ''a/out.mbtiles'', min_arg = 1, max_arg = 1,
      bbox_arg = Some (- 180, 0, 180, 0), threads_arg = 1, name_arg = ''n'', size_arg = 256,
      format_arg = ''png8''\<rparr>
     ''-180.0, 0.0, 180.0, 0.0'' Map.empty =
   Inr (Some (''m/tiles/metadata.json'',
     [(''bounds'', ''-180.0, 0.0, 180.0, 0.0''), (''format'', ''png''), (''maxzoom'', ''1''),
      (''minzoom'', ''1''), (''name'', ''out'')]))"
  by (simp add: main_metadata_def example_tiles_dir Let_def os_path_isfile_def tiles_ext_of_def
      metadata_def json_dump_members_def os_path_basename_def os_path_splitext_root_def
      py_str_int_digits less_char_def less_eq_char_def os_path_join_def os_path_join_step_def)

text \<open>
  The theorem for the output path \<open>a/out.mbtiles\<close>: five members in key order, the four
  empty entries left out.
\<close>

theorem metadata_json_members_witness:
  "main_metadata
     \<lparr>input_arg = ''m/style.xml'', output_arg = ''a/out.mbtiles'', min_arg = 1, max_arg = 1,
      bbox_arg = Some (- 180, 0, 180, 0), threads_arg = 1, name_arg = ''n'', size_arg = 256,
      format_arg = ''png8''\<rparr>
     ''-180.0, 0.0, 180.0, 0.0'' Map.empty =
   Inr (Some (''m/tiles/metadata.json'',
     [(''bounds'', ''-180.0, 0.0, 180.0, 0.0''), (''format'', ''png''), (''maxzoom'', ''1''),
      (''minzoom'', ''1''), (''name'', ''out'')])) \<and>
   ''m/tiles/metadata.json'' = tiles_dir_of ''m/style.xml'' @ ''/metadata.json'' \<and>
   (''attribution'', '''') \<in> set (metadata ''a/out.mbtiles'' ''png'' ''-180.0, 0.0, 180.0, 0.0'' 1 1) \<and>
   (''attribution'', '''') \<notin> set [(''bounds'', ''-180.0, 0.0, 180.0, 0.0''), (''format'', ''png''),
      (''maxzoom'', ''1''), (''minzoom'', ''1''), (''name'', ''out'')] \<and>
   sorted [''bounds'', ''format'', ''maxzoom'', ''minzoom'', ''name'']"
  using metadata_json_members [where a = "\<lparr>input_arg = ''m/style.xml'', output_arg = ''a/out.mbtiles'',
        min_arg = 1, max_arg = 1, bbox_arg = Some (- 180, 0, 180, 0), threads_arg = 1,
        name_arg = ''n'', size_arg = 256, format_arg = ''png8''\<rparr>"
      and bounds = "''-180.0, 0.0, 180.0, 0.0''" and fs = Map.empty
      and path = "''m/tiles/metadata.json''"
      and members = "[(''bounds'', ''-180.0, 0.0, 180.0, 0.0''), (''format'', ''png''),
        (''maxzoom'', ''1''), (''minzoom'', ''1''), (''name'', ''out'')]"]
    example_metadata
  by (simp add: example_tiles_dir metadata_def)

section \<open>Image formats and file extensions\<close>

lemma tiles_ext_of_png_family:
  "fmt \<in> {''png'', ''png8'', ''png24'', ''png32'', ''png256''} \<Longrightarrow> tiles_ext_of fmt = ''png''"
  by (auto simp: tiles_ext_of_def)

lemma render_tile_format:
  assumes "render_tile self tile_uri x y z = Inr (self', call)"
  shows "rc_format call =
     (if tile_fmt self = ''webp'' then ''webp:lossless=1:quality=100:image_hint=3''
      else if tile_fmt self = ''jpg'' then ''jpeg100''
      else tile_fmt self @ '':z=9:s=rle'')"
  using assms
  by (auto simp: render_tile_def ebind_def Let_def split: sum.splits if_splits)

lemma main_render_items:
  assumes "main_render tr buf rnd a fs = (fs', workers, items, err)"
  shows "(\<forall>w \<in> set workers. tile_fmt w = format_arg a) \<and>
     (\<forall>n u x y z. Some (n, u, x, y, z) \<in> set items \<longrightarrow>
        suffix (''.'' @ tiles_ext_of (format_arg a)) u)"
proof -
  let ?d = "tiles_dir_of (input_arg a)"
  from assms have rt: "render_tiles tr buf rnd (main_bbox (bbox_arg a)) (min_arg a) (max_arg a)
      (threads_arg a) (name_arg a) (size_arg a) (format_arg a) ?d (tiles_ext_of (format_arg a)) =
      (workers, items, err)"
    by (simp add: main_render_def Let_def)
  note ri = render_tiles_items [OF rt]
  have "tile_fmt w = format_arg a" if "w \<in> set workers" for w
    using ri that by (auto simp: RenderThread_init_def)
  moreover have "suffix (''.'' @ tiles_ext_of (format_arg a)) u"
    if "Some (n, u, x, y, z) \<in> set items" for n u x y z
  proof -
    from ri that
    have "(n, u, x, y, z) \<in> set (fst (render_tiles_puts (main_bbox (bbox_arg a)) (min_arg a)
        (max_arg a) (name_arg a) (size_arg a) ?d (tiles_ext_of (format_arg a))))"
      by blast
    from render_tiles_puts_uri [OF this] show ?thesis
      by (simp only: tile_uri_suffix)
  qed
  ultimately show ?thesis by blast
qed

lemma main_metadata_format:
  assumes "main_metadata a bounds fs = Inr (Some (path, members))"
  shows "(''format'', v) \<in> set members \<longleftrightarrow> v = tiles_ext_of (format_arg a) \<and> v \<noteq> []"
proof -
  from assms have mem: "members = json_dump_members (filter (\<lambda>(k, v). v \<noteq> [])
      (metadata (output_arg a) (tiles_ext_of (format_arg a)) bounds (min_arg a) (max_arg a)))"
    by (auto simp: main_metadata_def Let_def split: if_splits)
  show ?thesis
    by (auto simp: mem json_dump_members_props(1) metadata_def)
qed

text \<open>
  Claim C10, as the code has it. For each of the formats \<open>png\<close>, \<open>png8\<close>, \<open>png24\<close>, \<open>png32\<close>
  and \<open>png256\<close> the tile extension is \<open>png\<close>: every tile path put into the queue ends with
  \<open>.png\<close>, the member \<open>format\<close> of the metadata is \<open>png\<close>, every worker is built with the
  requested format itself, and \<open>render_tile\<close> asks the renderer for that format followed by
  \<open>:z=9:s=rle\<close>. The extension equals the requested format for \<open>jpg\<close>, \<open>webp\<close> and \<open>png\<close>,
  and differs from it for \<open>png8\<close>, \<open>png24\<close>, \<open>png32\<close> and \<open>png256\<close>.
\<close>

theorem png_family_extension:
  "(fmt \<in> {''png'', ''png8'', ''png24'', ''png32'', ''png256''} \<and> format_arg a = fmt \<longrightarrow>
      tiles_ext_of fmt = ''png'' \<and>
      (main_render tr buf rnd a fs = (fs', workers, items, err) \<longrightarrow>
         (\<forall>w \<in> set workers. tile_fmt w = fmt) \<and>
         (\<forall>n u x y z. Some (n, u, x, y, z) \<in> set items \<longrightarrow> suffix ''.png'' u)) \<and>
      (main_metadata a bounds fs2 = Inr (Some (path, members)) \<longrightarrow>
         (\<forall>v. (''format'', v) \<in> set members \<longleftrightarrow> v = ''png'')) \<and>
      (tile_fmt self = fmt \<and> render_tile self tile_uri x y z = Inr (self', call) \<longrightarrow>
         rc_format call = fmt @ '':z=9:s=rle'')) \<and>
   (fmt \<in> {''jpg'', ''webp'', ''png''} \<longrightarrow> tiles_ext_of fmt = fmt) \<and>
   (fmt \<in> {''png8'', ''png24'', ''png32'', ''png256''} \<longrightarrow> tiles_ext_of fmt \<noteq> fmt)"
proof (intro conjI impI)
  assume f: "fmt \<in> {''png'', ''png8'', ''png24'', ''png32'', ''png256''} \<and> format_arg a = fmt"
  then show e: "tiles_ext_of fmt = ''png''" by (simp add: tiles_ext_of_png_family)
  {
    assume "main_render tr buf rnd a fs = (fs', workers, items, err)"
    from main_render_items [OF this] f e
    show "\<forall>w \<in> set workers. tile_fmt w = fmt"
      and "\<forall>n u x y z. Some (n, u, x, y, z) \<in> set items \<longrightarrow> suffix ''.png'' u"
      by simp_all
  }
  {
    assume "main_metadata a bounds fs2 = Inr (Some (path, members))"
    from main_metadata_format [OF this] f e
    show "\<forall>v. (''format'', v) \<in> set members \<longleftrightarrow> v = ''png''" by auto
  }
  {
    assume r: "tile_fmt self = fmt \<and> render_tile self tile_uri x y z = Inr (self', call)"
    then have "render_tile self tile_uri x y z = Inr (self', call)" by simp
    from render_tile_format [OF this] r f
    show "rc_format call = fmt @ '':z=9:s=rle''" by auto
  }
next
  assume "fmt \<in> {''jpg'', ''webp'', ''png''}"
  then show "tiles_ext_of fmt = fmt" by (auto simp: tiles_ext_of_def)
next
  assume "fmt \<in> {''png8'', ''png24'', ''png32'', ''png256''}"
  then show "tiles_ext_of fmt \<noteq> fmt" by (auto simp: tiles_ext_of_def)
qed

text \<open>
  The claim as the specification states it fails at the format \<open>png\<close>: it is neither
  \<open>jpg\<close> nor \<open>webp\<close>, and the extension of its tile files is the requested format.
\<close>

theorem png_family_extension_counterexample:
  "''png'' \<noteq> ''jpg'' \<and> ''png'' \<noteq> ''webp'' \<and> tiles_ext_of ''png'' = ''png'' \<and>
   fst (snd (snd (main_render (\<lambda>b. b) 0 (\<lambda>c. ''img'')
     \<lparr>input_arg = ''m/style.xml'', output_arg = ''a/out.mbtiles'', min_arg = 1, max_arg = 1,
      bbox_arg = Some (- 180, 0, 180, 0), threads_arg = 1, name_arg = ''n'', size_arg = 256,
      format_arg = ''png''\<rparr>
     [''m/style.xml'' \<mapsto> File ''xml'', ''m/tiles'' \<mapsto> Dir, ''m/tiles/1/0/1.png'' \<mapsto> File ''old'']))) =
     [Some (''n'', ''m/tiles/1/0/1.png'', 0, 1, 1), Some (''n'', ''m/tiles/1/1/1.png'', 1, 1, 1), None]"
  by (simp add: example_main_render tiles_ext_of_def)

lemma world_tile_render_png8:
  "render_tile (RenderThread_init tr 0 rnd 0 256 ''png8'') ''t/0/0/0.png'' 0 0 0 =
     Inr (RenderThread_init tr 128 rnd 0 256 ''png8'',
          \<lparr>rc_bbox = tr (- 180, RAD_TO_DEG * (2 * arctan (exp (- pi)) - 0.5 * pi),
                          180, RAD_TO_DEG * (2 * arctan (exp pi) - 0.5 * pi)),
           rc_buffer = 128, rc_size = 256, rc_uri = ''t/0/0/0.png'', rc_format = ''png8:z=9:s=rle''\<rparr>)"
  by (simp add: render_tile_def RenderThread_init_def world_tile_corners ebind_def Let_def)

text \<open>
  The theorem at the format \<open>png8\<close>: the tiles are named \<open>.png\<close>, the metadata records
  \<open>png\<close>, and the renderer is asked for \<open>png8:z=9:s=rle\<close>.
\<close>

theorem png_family_extension_witness:
  "''png8'' \<in> {''png'', ''png8'', ''png24'', ''png32'', ''png256''} \<and>
   tiles_ext_of ''png8'' = ''png'' \<and> tiles_ext_of ''png8'' \<noteq> ''png8'' \<and>
   snd (main_render (\<lambda>b. b) 0 (\<lambda>c. ''img'')
     \<lparr>input_arg = ''m/style.xml'', output_arg = ''a/out.mbtiles'', min_arg = 1, max_arg = 1,
      bbox_arg = Some (- 180, 0, 180, 0), threads_arg = 1, name_arg = ''n'', size_arg = 256,
      format_arg = ''png8''\<rparr>
     [''m/style.xml'' \<mapsto> File ''xml'', ''m/tiles'' \<mapsto> Dir, ''m/tiles/1/0/1.png'' \<mapsto> File ''old'']) =
     ([RenderThread_init (\<lambda>b. b) 0 (\<lambda>c. ''img'') 1 256 ''png8''],
      [Some (''n'', ''m/tiles/1/0/1.png'', 0, 1, 1), Some (''n'', ''m/tiles/1/1/1.png'', 1, 1, 1), None],
      None) \<and>
   tile_fmt (RenderThread_init (\<lambda>b. b) 0 (\<lambda>c. ''img'') 1 256 ''png8'') = ''png8'' \<and>
   suffix ''.png'' ''m/tiles/1/0/1.png'' \<and>
   main_metadata
     \<lparr>input_arg = ''m/style.xml'', output_arg = ''a/out.mbtiles'', min_arg = 1, max_arg = 1,
      bbox_arg = Some (- 180, 0, 180, 0), threads_arg = 1, name_arg = ''n'', size_arg = 256,
      format_arg = ''png8''\<rparr>
     ''-180.0, 0.0, 180.0, 0.0'' Map.empty =
   Inr (Some (''m/tiles/metadata.json'',
     [(''bounds'', ''-180.0, 0.0, 180.0, 0.0''), (''format'', ''png''), (''maxzoom'', ''1''),
      (''minzoom'', ''1''), (''name'', ''out'')])) \<and>
   rc_format (snd (projr (render_tile (RenderThread_init (\<lambda>b. b) 0 (\<lambda>c. ''img'') 0 256 ''png8'')
     ''t/0/0/0.png'' 0 0 0))) = ''png8:z=9:s=rle'' \<and>
   tiles_ext_of ''jpg'' = ''jpg'' \<and> tiles_ext_of ''webp'' = ''webp''"
  using png_family_extension [where fmt = "''png8''"
      and a = "\<lparr>input_arg = ''m/style.xml'', output_arg = ''a/out.mbtiles'', min_arg = 1, max_arg = 1,
        bbox_arg = Some (- 180, 0, 180, 0), threads_arg = 1, name_arg = ''n'', size_arg = 256,
        format_arg = ''png8''\<rparr>"
      and tr = "\<lambda>b. b" and buf = 0 and rnd = "\<lambda>c. ''img''"
      and fs = "[''m/style.xml'' \<mapsto> File ''xml'', ''m/tiles'' \<mapsto> Dir,
        ''m/tiles/1/0/1.png'' \<mapsto> File ''old'']"
      and fs' = "shutil_rmtree [''m/style.xml'' \<mapsto> File ''xml'', ''m/tiles'' \<mapsto> Dir,
        ''m/tiles/1/0/1.png'' \<mapsto> File ''old''] ''m/tiles''"
      and workers = "[RenderThread_init (\<lambda>b. b) 0 (\<lambda>c. ''img'') 1 256 ''png8'']"
      and items = "[Some (''n'', ''m/tiles/1/0/1.png'', 0, 1, 1),
        Some (''n'', ''m/tiles/1/1/1.png'', 1, 1, 1), None]"
      and err = None
      and bounds = "''-180.0, 0.0, 180.0, 0.0''" and ?fs2.0 = Map.empty
      and path = "''m/tiles/metadata.json''"
      and members = "[(''bounds'', ''-180.0, 0.0, 180.0, 0.0''), (''format'', ''png''),
        (''maxzoom'', ''1''), (''minzoom'', ''1''), (''name'', ''out'')]"
      and self = "RenderThread_init (\<lambda>b. b) 0 (\<lambda>c. ''img'') 0 256 ''png8''"
      and tile_uri = "''t/0/0/0.png''" and x = 0 and y = 0 and z = 0]
    png_family_extension [where fmt = "''jpg''"] png_family_extension [where fmt = "''webp''"]
    example_main_render [of "''png8''"] example_metadata
    world_tile_render_png8 [of "\<lambda>b. b" "\<lambda>c. ''img''"]
  by (simp add: tiles_ext_of_def RenderThread_init_def suffix_def)

section \<open>The queue drains after every item has been acknowledged\<close>




















end
